(* ===== verification/Prelude.thy ===== *)
theory Prelude
  imports Main
begin

text \<open>
  Shared vocabulary of the development: the named collection \<open>js_eval\<close> of
  evaluation rules that the component theories feed and the demo proofs use, the
  type names of the model, and decimal digits.  Decimal printing and reading is used by three
  components: JavaScript's ToString of numbers (\<open>"$" + rate.rate\<close>,
  \<open>Error(res.status)\<close>), the canonical array-index keys of property reads
  (\<open>data[0]\<close> reads the property \<open>"0"\<close>), and the number lexer of
  \<open>JSON.parse\<close>.  Its roundtrip lemmas are proved once here.
\<close>

named_theorems js_eval "evaluation rules of the JavaScript runtime model"

type_synonym url = string
type_synonym elem_id = string

subsection \<open>Exceptions as sum values\<close>

text \<open>
  A JavaScript expression either throws (\<open>Inl\<close>, the thrown value) or yields a value
  (\<open>Inr\<close>).  \<open>sum_bind\<close> sequences two of them the way statement order does: the
  second runs only when the first did not throw.
\<close>

definition sum_bind :: "'e + 'a \<Rightarrow> ('a \<Rightarrow> 'e + 'b) \<Rightarrow> 'e + 'b" where
  "sum_bind r f = (case r of Inl e \<Rightarrow> Inl e | Inr a \<Rightarrow> f a)"

lemma sum_bind_Inl [simp, js_eval]: "sum_bind (Inl e) f = Inl e"
  by (simp add: sum_bind_def)

lemma sum_bind_Inr [simp, js_eval]: "sum_bind (Inr a) f = f a"
  by (simp add: sum_bind_def)

lemma sum_bind_eq_Inr:
  "sum_bind r f = Inr b \<longleftrightarrow> (\<exists>a. r = Inr a \<and> f a = Inr b)"
  by (cases r) auto

lemma sum_bind_assoc: "sum_bind (sum_bind r f) g = sum_bind r (\<lambda>a. sum_bind (f a) g)"
  by (cases r) auto

subsection \<open>Decimal digits\<close>

definition digit_chr :: "nat \<Rightarrow> char" where
  "digit_chr d = char_of (48 + d)"

definition is_digit :: "char \<Rightarrow> bool" where
  "is_digit c \<longleftrightarrow> (48::nat) \<le> of_char c \<and> (of_char c :: nat) \<le> 57"

definition digit_val :: "char \<Rightarrow> nat" where
  "digit_val c = of_char c - 48"

lemma of_char_digit_chr: "d < 10 \<Longrightarrow> (of_char (digit_chr d) :: nat) = 48 + d"
  by (simp add: digit_chr_def)

lemma digit_val_chr [simp]: "d < 10 \<Longrightarrow> digit_val (digit_chr d) = d"
  by (simp add: digit_val_def of_char_digit_chr)

lemma is_digit_chr [simp]: "d < 10 \<Longrightarrow> is_digit (digit_chr d)"
  by (simp add: is_digit_def of_char_digit_chr)

lemma digit_chr_val: "is_digit c \<Longrightarrow> digit_chr (digit_val c) = c"
proof -
  assume "is_digit c"
  then have "48 + digit_val c = of_char c"
    by (simp add: is_digit_def digit_val_def)
  then show ?thesis
    by (simp add: digit_chr_def)
qed

lemma digit_val_less: "is_digit c \<Longrightarrow> digit_val c < 10"
  unfolding is_digit_def digit_val_def by linarith

lemma digit_chr_inj [simp]:
  "d < 10 \<Longrightarrow> e < 10 \<Longrightarrow> digit_chr d = digit_chr e \<longleftrightarrow> d = e"
  by (metis digit_val_chr)

lemma digit_chr_eq_zero [simp]: "d < 10 \<Longrightarrow> digit_chr d = CHR ''0'' \<longleftrightarrow> d = 0"
proof -
  have "CHR ''0'' = digit_chr 0"
    unfolding digit_chr_def by (rule of_char_eqI [where 'a = nat]) simp
  then show "d < 10 \<Longrightarrow> digit_chr d = CHR ''0'' \<longleftrightarrow> d = 0"
    by simp
qed

subsection \<open>Printing and reading naturals\<close>

text \<open>The digits of a natural, most significant first, without leading zeros.\<close>

fun nat_str :: "nat \<Rightarrow> string" where
  "nat_str n = (if n < 10 then [digit_chr n] else nat_str (n div 10) @ [digit_chr (n mod 10)])"

declare nat_str.simps [simp del]

definition read_nat :: "string \<Rightarrow> nat" where
  "read_nat cs = foldl (\<lambda>n c. 10 * n + digit_val c) 0 cs"

lemma read_nat_Nil [simp]: "read_nat [] = 0"
  by (simp add: read_nat_def)

lemma read_nat_snoc [simp]: "read_nat (cs @ [c]) = 10 * read_nat cs + digit_val c"
  by (simp add: read_nat_def)

lemma read_nat_single [simp]: "read_nat [c] = digit_val c"
  by (simp add: read_nat_def)

lemma read_nat_nat_str [simp]: "read_nat (nat_str n) = n"
proof (induction n rule: nat_str.induct)
  case (1 n)
  show ?case
  proof (cases "n < 10")
    case True
    then show ?thesis by (subst nat_str.simps) simp
  next
    case False
    with "1.IH" show ?thesis by (subst nat_str.simps) simp
  qed
qed

lemma nat_str_inj [simp]: "nat_str m = nat_str n \<longleftrightarrow> m = n"
  by (metis read_nat_nat_str)

lemma nat_str_not_Nil [simp]: "nat_str n \<noteq> []"
  by (subst nat_str.simps) simp

lemma nat_str_digits: "list_all is_digit (nat_str n)"
proof (induction n rule: nat_str.induct)
  case (1 n)
  then show ?case
    by (subst nat_str.simps) simp
qed

lemma nat_str_small [simp]: "n < 10 \<Longrightarrow> nat_str n = [digit_chr n]"
  by (subst nat_str.simps) simp

lemma nat_str_hd_zero: "hd (nat_str n) = CHR ''0'' \<longleftrightarrow> n = 0"
proof (induction n rule: nat_str.induct)
  case (1 n)
  show ?case
  proof (cases "n < 10")
    case True
    then show ?thesis by simp
  next
    case False
    then have "hd (nat_str n) = hd (nat_str (n div 10))"
      by (subst nat_str.simps) simp
    with False "1.IH" show ?thesis by simp
  qed
qed

text \<open>The ten digit characters, so that a number's decimal string evaluates.\<close>

lemma digit_chr_numeral [simp]:
  "digit_chr 0 = CHR ''0''"
  "digit_chr 1 = CHR ''1''"
  "digit_chr 2 = CHR ''2''"
  "digit_chr 3 = CHR ''3''"
  "digit_chr 4 = CHR ''4''"
  "digit_chr 5 = CHR ''5''"
  "digit_chr 6 = CHR ''6''"
  "digit_chr 7 = CHR ''7''"
  "digit_chr 8 = CHR ''8''"
  "digit_chr 9 = CHR ''9''"
  unfolding digit_chr_def by (rule of_char_eqI [where 'a = nat], simp)+

text \<open>A run of digits followed by a non-digit is split off exactly by the lexer.\<close>

definition no_digit_start :: "string \<Rightarrow> bool" where
  "no_digit_start rest \<longleftrightarrow> rest = [] \<or> \<not> is_digit (hd rest)"

lemma takeWhile_digits_append:
  "list_all is_digit xs \<Longrightarrow> no_digit_start rest \<Longrightarrow> takeWhile is_digit (xs @ rest) = xs"
  by (induction xs) (cases rest; auto simp: no_digit_start_def)+

lemma dropWhile_digits_append:
  "list_all is_digit xs \<Longrightarrow> no_digit_start rest \<Longrightarrow> dropWhile is_digit (xs @ rest) = rest"
  by (induction xs) (cases rest; auto simp: no_digit_start_def)+

text \<open>Reading a digit string split in two, and with leading zeros.\<close>

lemma read_nat_append: "read_nat (xs @ ys) = read_nat xs * 10 ^ length ys + read_nat ys"
proof (induction ys rule: rev_induct)
  case Nil
  then show ?case by simp
next
  case (snoc y ys)
  then show ?case
    by (simp only: append_assoc [symmetric] read_nat_snoc) (simp add: algebra_simps)
qed

lemma digit_val_zero [simp]: "digit_val (CHR ''0'') = 0"
  by (simp add: digit_val_def)

lemma read_nat_zeros [simp]: "read_nat (replicate k (CHR ''0'') @ s) = read_nat s"
proof (induction k)
  case 0
  then show ?case by simp
next
  case (Suc k)
  have "read_nat (replicate (Suc k) (CHR ''0'') @ s) = read_nat ([CHR ''0''] @ replicate k (CHR ''0'') @ s)"
    by simp
  also have "\<dots> = read_nat (replicate k (CHR ''0'') @ s)"
    by (simp only: read_nat_append [of "[CHR ''0'']"]) simp
  finally show ?case using Suc by simp
qed

lemma length_nat_str_le: "n < 10 ^ d \<Longrightarrow> 0 < d \<Longrightarrow> length (nat_str n) \<le> d"
proof (induction n arbitrary: d rule: nat_str.induct)
  case (1 n)
  show ?case
  proof (cases "n < 10")
    case True
    with "1.prems" show ?thesis by simp
  next
    case False
    have d: "1 < d"
    proof (rule ccontr)
      assume "\<not> 1 < d"
      with "1.prems" have "d = 1" by simp
      with "1.prems" False show False by simp
    qed
    from "1.prems" have "n div 10 < 10 ^ (d - 1)"
      using d by (cases d) (auto simp: less_mult_imp_div_less mult.commute)
    with "1.IH" False d have "length (nat_str (n div 10)) \<le> d - 1"
      by simp
    with False d show ?thesis
      by (subst nat_str.simps) simp
  qed
qed

end
