(* ===== verification/JsValue.thy ===== *)
theory JsValue
  imports Prelude
begin

text \<open>
  The JavaScript values the demo scripts handle, and the three language operations
  they apply to them: property reads (\<open>data[0]\<close>, \<open>data.bpi.USD\<close>,
  \<open>response.ok\<close>), conversion to a string (assigning to \<open>innerText\<close> or
  \<open>innerHTML\<close>, \<open>"$" + rate.rate\<close>, \<open>"Error: " + error\<close>) and conversion
  to a boolean (\<open>if(!response.ok)\<close>, \<open>if(error.response)\<close>).
  A value is a JSON value plus \<open>undefined\<close>: the bodies come from \<open>JSON.parse\<close>, so
  no function or prototype object ever reaches the scripts as data.  A number is a
  decimal \<open>JNum m d\<close>, the value \<open>m / 10^d\<close>; it is kept normalised
  (\<open>wf_jsval\<close>), so that equal numbers have one representation.  The thrown values
  are the error objects the scripts can meet: the built-in errors and the
  \<open>AxiosError\<close> of the axios library, with its \<open>response\<close> and \<open>request\<close>
  properties.
\<close>

datatype jsval =
    JUndef
  | JNull
  | JBool bool
  | JNum int nat
  | JStr string
  | JArr "jsval list"
  | JObj "(string \<times> jsval) list"

datatype js_error =
    TypeError string
  | SyntaxError string
  | ReferenceError string
  | Error string
  | AxiosError string jsval jsval

abbreviation js_int :: "int \<Rightarrow> jsval" where
  "js_int n \<equiv> JNum n 0"

subsection \<open>Well-formed values\<close>

fun wf_jsval :: "jsval \<Rightarrow> bool"
  and wf_list :: "jsval list \<Rightarrow> bool"
  and wf_members :: "(string \<times> jsval) list \<Rightarrow> bool" where
  "wf_jsval (JNum m d) = (d = 0 \<or> m mod 10 \<noteq> 0)"
| "wf_jsval (JArr vs) = wf_list vs"
| "wf_jsval (JObj kvs) = (distinct (map fst kvs) \<and> wf_members kvs)"
| "wf_jsval _ = True"
| "wf_list [] = True"
| "wf_list (v # vs) = (wf_jsval v \<and> wf_list vs)"
| "wf_members [] = True"
| "wf_members ((k, v) # kvs) = (wf_jsval v \<and> wf_members kvs)"

lemma wf_list_iff: "wf_list vs \<longleftrightarrow> (\<forall>v \<in> set vs. wf_jsval v)"
  by (induction vs) auto

lemma wf_members_iff: "wf_members kvs \<longleftrightarrow> (\<forall>kv \<in> set kvs. wf_jsval (snd kv))"
  by (induction kvs) auto

subsection \<open>ToString\<close>

text \<open>
  Number-to-string in decimal notation: the sign, the integer part, and the
  fraction digits when there are any (Number::toString for the magnitudes the
  demos see; the exponent notation JavaScript uses from \<open>1e21\<close> on is not
  modelled).
\<close>

definition pad_zeros :: "nat \<Rightarrow> string \<Rightarrow> string" where
  "pad_zeros d s = replicate (d - length s) (CHR ''0'') @ s"

definition num_str :: "int \<Rightarrow> nat \<Rightarrow> string" where
  "num_str m d =
     (if m < 0 then ''-'' else []) @ nat_str (nat \<bar>m\<bar> div 10 ^ d) @
     (if d = 0 then [] else CHR ''.'' # pad_zeros d (nat_str (nat \<bar>m\<bar> mod 10 ^ d)))"

text \<open>
  \<open>String(v)\<close>: arrays join their elements with commas, \<open>undefined\<close> and
  \<open>null\<close> elements giving the empty string (Array.prototype.toString); plain
  objects print as \<open>[object Object]\<close>.
\<close>

fun js_to_string :: "jsval \<Rightarrow> string"
  and arr_join :: "jsval list \<Rightarrow> string" where
  "js_to_string JUndef = ''undefined''"
| "js_to_string JNull = ''null''"
| "js_to_string (JBool b) = (if b then ''true'' else ''false'')"
| "js_to_string (JNum m d) = num_str m d"
| "js_to_string (JStr s) = s"
| "js_to_string (JArr vs) = arr_join vs"
| "js_to_string (JObj kvs) = ''[object Object]''"
| "arr_join [] = []"
| "arr_join (v # vs) =
     (if v = JUndef \<or> v = JNull then [] else js_to_string v) @
     (if vs = [] then [] else CHR '','' # arr_join vs)"

text \<open>ToBoolean (NaN is not a value of the model).\<close>

fun js_truthy :: "jsval \<Rightarrow> bool" where
  "js_truthy JUndef = False"
| "js_truthy JNull = False"
| "js_truthy (JBool b) = b"
| "js_truthy (JNum m d) = (m \<noteq> 0)"
| "js_truthy (JStr s) = (s \<noteq> [])"
| "js_truthy (JArr vs) = True"
| "js_truthy (JObj kvs) = True"

subsection \<open>Property reads\<close>

text \<open>
  \<open>o[k]\<close> with a number \<open>k\<close> reads the property named \<open>String(k)\<close>; on an
  array or a string that name selects an element when it is a canonical array
  index, the decimal printing of a natural.  Reading any property of
  \<open>undefined\<close> or \<open>null\<close> throws a TypeError with V8's message.
  Properties inherited from prototypes (methods) are not values of the model and
  read as \<open>undefined\<close>; the scripts read none of them as data.
\<close>

definition array_index :: "string \<Rightarrow> nat option" where
  "array_index k = (if nat_str (read_nat k) = k then Some (read_nat k) else None)"

definition read_error :: "string \<Rightarrow> string \<Rightarrow> js_error" where
  "read_error what k =
     TypeError (''Cannot read properties of '' @ what @ '' (reading '' @ [CHR 0x27] @ k @ [CHR 0x27] @ '')'')"

fun get_prop :: "jsval \<Rightarrow> string \<Rightarrow> js_error + jsval" where
  "get_prop JUndef k = Inl (read_error ''undefined'' k)"
| "get_prop JNull k = Inl (read_error ''null'' k)"
| "get_prop (JBool b) k = Inr JUndef"
| "get_prop (JNum m d) k = Inr JUndef"
| "get_prop (JStr s) k =
     Inr (if k = ''length'' then js_int (int (length s))
          else case array_index k of
                 Some i \<Rightarrow> if i < length s then JStr [s ! i] else JUndef
               | None \<Rightarrow> JUndef)"
| "get_prop (JArr vs) k =
     Inr (if k = ''length'' then js_int (int (length vs))
          else case array_index k of
                 Some i \<Rightarrow> if i < length vs then vs ! i else JUndef
               | None \<Rightarrow> JUndef)"
| "get_prop (JObj kvs) k = Inr (case map_of kvs k of Some v \<Rightarrow> v | None \<Rightarrow> JUndef)"

text \<open>\<open>v[i]\<close> for a number \<open>i\<close>, and a chain of reads \<open>v.k1.k2 \<dots>\<close>.\<close>

definition get_index :: "jsval \<Rightarrow> nat \<Rightarrow> js_error + jsval" where
  "get_index v i = get_prop v (nat_str i)"

fun get_path :: "jsval \<Rightarrow> string list \<Rightarrow> js_error + jsval" where
  "get_path v [] = Inr v"
| "get_path v (k # ks) = sum_bind (get_prop v k) (\<lambda>w. get_path w ks)"

lemma array_index_nat_str [simp]: "array_index (nat_str i) = Some i"
  by (simp add: array_index_def)

lemma nat_str_ne_length [simp]: "nat_str i \<noteq> ''length''"
proof
  assume "nat_str i = ''length''"
  with nat_str_digits [of i] have "is_digit (CHR ''l'')"
    by simp
  then show False
    by (simp add: is_digit_def)
qed

lemma get_index_arr [simp, js_eval]:
  "get_index (JArr vs) i = Inr (if i < length vs then vs ! i else JUndef)"
  by (simp add: get_index_def)

lemma get_index_str [simp, js_eval]:
  "get_index (JStr s) i = Inr (if i < length s then JStr [s ! i] else JUndef)"
  by (simp add: get_index_def)

lemma get_index_undef [simp, js_eval]:
  "get_index JUndef i = Inl (read_error ''undefined'' (nat_str i))"
  by (simp add: get_index_def)

lemma get_index_null [simp, js_eval]:
  "get_index JNull i = Inl (read_error ''null'' (nat_str i))"
  by (simp add: get_index_def)

declare get_prop.simps [js_eval] js_to_string.simps [js_eval] js_truthy.simps [js_eval]

text \<open>A one-element array prints as its element: why \<open>innerText = data\<close> on
  \<open>[q]\<close> shows \<open>q\<close>.\<close>

lemma js_to_string_singleton [simp, js_eval]:
  "v \<noteq> JUndef \<Longrightarrow> v \<noteq> JNull \<Longrightarrow> js_to_string (JArr [v]) = js_to_string v"
  by simp

lemma num_str_int [simp, js_eval]:
  "num_str n 0 = (if n < 0 then ''-'' else []) @ nat_str (nat \<bar>n\<bar>)"
  by (simp add: num_str_def)

subsection \<open>Function declarations\<close>

text \<open>
  Before a script runs, each name declared by a function declaration is bound to the
  function object of its last declaration in the script (GlobalDeclarationInstantiation,
  ECMA-262 16.1.7): a second \<open>function handleErrors\<close> replaces the first for every
  use, including uses written before it.
\<close>

definition hoist :: "(string \<times> 'f) list \<Rightarrow> string \<Rightarrow> 'f option" where
  "hoist decls = fold (\<lambda>(n, f) env. env(n \<mapsto> f)) decls Map.empty"

lemma fold_update_map_of: "fold (\<lambda>(n, f) env. env(n \<mapsto> f)) decls m = m ++ map_of (rev decls)"
  by (induction decls arbitrary: m) (auto simp: map_add_def fun_eq_iff split: option.splits)

lemma hoist_map_of_rev: "hoist decls = map_of (rev decls)"
  by (simp add: hoist_def fold_update_map_of)

subsection \<open>Error objects\<close>

fun error_name :: "js_error \<Rightarrow> string" where
  "error_name (TypeError m) = ''TypeError''"
| "error_name (SyntaxError m) = ''SyntaxError''"
| "error_name (ReferenceError m) = ''ReferenceError''"
| "error_name (Error m) = ''Error''"
| "error_name (AxiosError m resp req) = ''AxiosError''"

fun error_message :: "js_error \<Rightarrow> string" where
  "error_message (TypeError m) = m"
| "error_message (SyntaxError m) = m"
| "error_message (ReferenceError m) = m"
| "error_message (Error m) = m"
| "error_message (AxiosError m resp req) = m"

text \<open>\<open>String(e)\<close> of an error object: Error.prototype.toString.\<close>

definition error_to_string :: "js_error \<Rightarrow> string" where
  "error_to_string e =
     (if error_message e = [] then error_name e else error_name e @ '': '' @ error_message e)"

text \<open>Property reads on an error object: its own data properties.\<close>

fun error_prop :: "js_error \<Rightarrow> string \<Rightarrow> jsval" where
  "error_prop (AxiosError m resp req) k =
     (if k = ''response'' then resp else if k = ''request'' then req
      else if k = ''message'' then JStr m else if k = ''name'' then JStr ''AxiosError''
      else JUndef)"
| "error_prop e k =
     (if k = ''message'' then JStr (error_message e) else if k = ''name'' then JStr (error_name e)
      else JUndef)"

end
