(* ===== verification/Promise.thy ===== *)
theory Promise
  imports JsValue
begin

text \<open>
  Statement sequences and promise chains of the scripts, with the state they change
  passed explicitly.  A computation started in state \<open>s\<close> ends with a completion,
  normal with a value or a throw with the error object, and the state at that
  point: a statement that throws keeps the effects of the statements before it.
  A promise chain settles the same way: a fulfilled promise is a normal
  completion, a rejected one a throw.  \<open>p.then(f)\<close> is \<open>js_bind p f\<close>: \<open>f\<close>
  runs only on fulfilment and its own throw rejects the derived promise;
  \<open>p.catch(h)\<close> is \<open>js_catch p h\<close>: \<open>h\<close> runs only on rejection, and what it
  returns fulfils the derived promise.  A handler that returns a promise
  (\<open>parseJSON\<close> returns \<open>response.json()\<close>) is a computation itself, which the
  chain adopts.  The chain is run to its settlement in one go: the model does not
  interleave other tasks between the reactions of one chain (the event-loop
  theory is where tasks of different requests interleave).
\<close>

datatype 'a completion = Normal 'a | Throw js_error

type_synonym ('s, 'a) js = "'s \<Rightarrow> 'a completion \<times> 's"

definition js_return :: "'a \<Rightarrow> ('s, 'a) js" where
  "js_return a = (\<lambda>s. (Normal a, s))"

definition js_throw :: "js_error \<Rightarrow> ('s, 'a) js" where
  "js_throw e = (\<lambda>s. (Throw e, s))"

definition js_bind :: "('s, 'a) js \<Rightarrow> ('a \<Rightarrow> ('s, 'b) js) \<Rightarrow> ('s, 'b) js" where
  "js_bind m f = (\<lambda>s. case m s of (Normal a, s') \<Rightarrow> f a s' | (Throw e, s') \<Rightarrow> (Throw e, s'))"

definition js_catch :: "('s, 'a) js \<Rightarrow> (js_error \<Rightarrow> ('s, 'a) js) \<Rightarrow> ('s, 'a) js" where
  "js_catch m h = (\<lambda>s. case m s of (Normal a, s') \<Rightarrow> (Normal a, s') | (Throw e, s') \<Rightarrow> h e s')"

text \<open>An expression that may throw and changes nothing; a statement that changes
  the state and cannot throw.\<close>

definition js_of_sum :: "js_error + 'a \<Rightarrow> ('s, 'a) js" where
  "js_of_sum r = (case r of Inl e \<Rightarrow> js_throw e | Inr a \<Rightarrow> js_return a)"

definition js_modify :: "('s \<Rightarrow> 's) \<Rightarrow> ('s, unit) js" where
  "js_modify f = (\<lambda>s. (Normal (), f s))"

text \<open>
  The end of a chain nobody catches, or of an event handler: a throw is reported by
  the browser through \<open>report\<close> (an uncaught exception, or an unhandled
  rejection), and the completion value is dropped.
\<close>

definition js_settle :: "('s, 'a) js \<Rightarrow> (js_error \<Rightarrow> 's \<Rightarrow> 's) \<Rightarrow> 's \<Rightarrow> 's" where
  "js_settle m report s = (case m s of (Normal a, s') \<Rightarrow> s' | (Throw e, s') \<Rightarrow> report e s')"

subsection \<open>Evaluation rules\<close>

lemma js_bind_return [simp, js_eval]: "js_bind (js_return a) f = f a"
  by (simp add: js_bind_def js_return_def)

lemma js_bind_throw [simp, js_eval]: "js_bind (js_throw e) f = js_throw e"
  by (simp add: js_bind_def js_throw_def fun_eq_iff)

lemma js_catch_return [simp, js_eval]: "js_catch (js_return a) h = js_return a"
  by (simp add: js_catch_def js_return_def)

lemma js_catch_throw [simp, js_eval]: "js_catch (js_throw e) h = h e"
  by (simp add: js_catch_def js_throw_def)

lemma js_of_sum_Inl [simp, js_eval]: "js_of_sum (Inl e) = js_throw e"
  by (simp add: js_of_sum_def)

lemma js_of_sum_Inr [simp, js_eval]: "js_of_sum (Inr a) = js_return a"
  by (simp add: js_of_sum_def)

lemma js_bind_modify [simp, js_eval]: "js_bind (js_modify g) f s = f () (g s)"
  by (simp add: js_bind_def js_modify_def)

lemma js_catch_modify [simp, js_eval]: "js_catch (js_modify g) h = js_modify g"
  by (simp add: js_catch_def js_modify_def)

lemma js_settle_return [simp, js_eval]: "js_settle (js_return a) report s = s"
  by (simp add: js_settle_def js_return_def)

lemma js_settle_throw [simp, js_eval]: "js_settle (js_throw e) report s = report e s"
  by (simp add: js_settle_def js_throw_def)

lemma js_settle_modify [simp, js_eval]: "js_settle (js_modify g) report s = g s"
  by (simp add: js_settle_def js_modify_def)

lemma js_settle_bind_modify [simp, js_eval]:
  "js_settle (js_bind (js_modify g) f) report s = js_settle (f ()) report (g s)"
  by (simp add: js_settle_def)

text \<open>The same steps on a chain whose first part has run on a given state.\<close>

lemma js_bind_Normal [simp]: "m s = (Normal a, s') \<Longrightarrow> js_bind m f s = f a s'"
  by (simp add: js_bind_def)

lemma js_bind_Throw [simp]: "m s = (Throw e, s') \<Longrightarrow> js_bind m f s = (Throw e, s')"
  by (simp add: js_bind_def)

lemma js_catch_Normal [simp]: "m s = (Normal a, s') \<Longrightarrow> js_catch m h s = (Normal a, s')"
  by (simp add: js_catch_def)

lemma js_catch_Throw [simp]: "m s = (Throw e, s') \<Longrightarrow> js_catch m h s = h e s'"
  by (simp add: js_catch_def)

lemma js_settle_Normal [simp]: "m s = (Normal a, s') \<Longrightarrow> js_settle m report s = s'"
  by (simp add: js_settle_def)

lemma js_settle_Throw [simp]: "m s = (Throw e, s') \<Longrightarrow> js_settle m report s = report e s'"
  by (simp add: js_settle_def)

lemma js_modify_apply [js_eval]: "js_modify g s = (Normal (), g s)"
  by (simp add: js_modify_def)

subsection \<open>Laws of the chain combinators\<close>

lemma js_bind_return_right: "js_bind m js_return = m"
  by (auto simp: js_bind_def js_return_def fun_eq_iff split: prod.splits completion.splits)

lemma js_bind_assoc: "js_bind (js_bind m f) g = js_bind m (\<lambda>a. js_bind (f a) g)"
  by (auto simp: js_bind_def fun_eq_iff split: prod.splits completion.splits)

lemma js_catch_assoc: "js_catch (js_catch m h) k = js_catch m (\<lambda>e. js_catch (h e) k)"
  by (auto simp: js_catch_def fun_eq_iff split: prod.splits completion.splits)

text \<open>
  A throw passes every \<open>.then\<close> and is delivered to the first \<open>.catch\<close>; a
  fulfilment passes every \<open>.catch\<close>.  These two facts are what makes a chain
  \<open>p.then(f).catch(h)\<close> run exactly one of \<open>f\<close>'s continuation and \<open>h\<close>.
\<close>

lemma js_catch_bind_cases:
  "js_catch (js_bind m f) h s =
     (case m s of (Normal a, s') \<Rightarrow> js_catch (f a) h s' | (Throw e, s') \<Rightarrow> h e s')"
  by (auto simp: js_catch_def js_bind_def split: prod.splits completion.splits)

lemma js_settle_catch_bind:
  "js_settle (js_catch (js_bind m f) h) report s =
     (case m s of (Normal a, s') \<Rightarrow> js_settle (js_catch (f a) h) report s'
                | (Throw e, s') \<Rightarrow> js_settle (h e) report s')"
  by (auto simp: js_settle_def js_catch_bind_cases split: prod.splits completion.splits)

end
