(* ===== verification/Json.thy ===== *)
theory Json
  imports JsValue
begin

text \<open>
  \<open>JSON.parse\<close> (ECMA-262 25.5.1 over the grammar of RFC 8259), the function every
  transport of the demos ends in: \<open>JSON.parse(XHR.response)\<close> and
  \<open>JSON.parse(XHR.responseText)\<close> in the XMLHttpRequest handlers,
  \<open>response.json()\<close> in the fetch chains, and the response converters of jQuery
  and axios.  The parser is a recursive descent over the characters, one function
  per grammar rule, each returning the value and the rest of the input, or
  \<open>None\<close> for a syntax error.  Values nest, so the three mutually recursive rules
  carry a fuel argument; \<open>json_parse\<close> gives them one unit per input character
  plus one, which JsonRoundtrip.thy shows is enough for every text the printer
  produces.  Duplicate keys in an object
  keep the position of the first and the value of the last, as property
  assignment does.  Strings are byte strings: a \<open>\u\<close> escape above \<open>00FF\<close>
  has no byte and is refused.  The printer \<open>json_print\<close> is the server's side
  of the protocol (the compact form of \<open>JSON.stringify\<close>); it is used to state
  the roundtrip.
\<close>

subsection \<open>Characters\<close>

abbreviation dquote :: char where "dquote \<equiv> CHR 0x22"
abbreviation bslash :: char where "bslash \<equiv> CHR 0x5C"

definition is_ws :: "char \<Rightarrow> bool" where
  "is_ws c \<longleftrightarrow> c = CHR '' '' \<or> c = CHR 0x09 \<or> c = CHR 0x0A \<or> c = CHR 0x0D"

definition hex_val :: "char \<Rightarrow> nat option" where
  "hex_val c =
     (if is_digit c then Some (digit_val c)
      else if (97::nat) \<le> of_char c \<and> (of_char c :: nat) \<le> 102 then Some (of_char c - 87)
      else if (65::nat) \<le> of_char c \<and> (of_char c :: nat) \<le> 70 then Some (of_char c - 55)
      else None)"

definition hex_chr :: "nat \<Rightarrow> char" where
  "hex_chr d = (if d < 10 then digit_chr d else char_of (87 + d))"

text \<open>The four hex digits of a \<open>\u\<close> escape, decoded to a byte.\<close>

definition hex4 :: "string \<Rightarrow> char option" where
  "hex4 hs =
     (case those (map hex_val hs) of
        Some [a, b, c, d] \<Rightarrow>
          let code = ((a * 16 + b) * 16 + c) * 16 + d in
          if code < 256 then Some (char_of code) else None
      | _ \<Rightarrow> None)"

definition simple_escape :: "char \<Rightarrow> char option" where
  "simple_escape e =
     (if e = dquote then Some (dquote)
      else if e = bslash then Some (bslash)
      else if e = CHR ''/'' then Some (CHR ''/'')
      else if e = CHR ''b'' then Some (CHR 0x08)
      else if e = CHR ''f'' then Some (CHR 0x0C)
      else if e = CHR ''n'' then Some (CHR 0x0A)
      else if e = CHR ''r'' then Some (CHR 0x0D)
      else if e = CHR ''t'' then Some (CHR 0x09)
      else None)"

subsection \<open>Strings\<close>

text \<open>The characters of a string literal after its opening quote, up to and
  without the closing quote.\<close>

function parse_chars :: "string \<Rightarrow> (string \<times> string) option" where
  "parse_chars [] = None"
| "parse_chars (c # cs) =
     (if c = dquote then Some ([], cs)
      else if c = bslash then
        (case cs of
           [] \<Rightarrow> None
         | e # cs' \<Rightarrow>
             if e = CHR ''u'' then
               (case hex4 (take 4 cs') of
                  None \<Rightarrow> None
                | Some ch \<Rightarrow> map_option (apfst (Cons ch)) (parse_chars (drop 4 cs')))
             else
               (case simple_escape e of
                  None \<Rightarrow> None
                | Some ch \<Rightarrow> map_option (apfst (Cons ch)) (parse_chars cs')))
      else if of_char c < (32::nat) then None
      else map_option (apfst (Cons c)) (parse_chars cs))"
  by pat_completeness auto
termination
  by (relation "measure length") auto

subsection \<open>Numbers\<close>

definition lex_int_part :: "string \<Rightarrow> (string \<times> string) option" where
  "lex_int_part s =
     (let ds = takeWhile is_digit s in
      if ds = [] \<or> (hd ds = CHR ''0'' \<and> ds \<noteq> ''0'') then None
      else Some (ds, dropWhile is_digit s))"

definition lex_frac :: "string \<Rightarrow> (string \<times> string) option" where
  "lex_frac s =
     (case s of
        c # r \<Rightarrow>
          if c = CHR ''.'' then
            (let ds = takeWhile is_digit r in
             if ds = [] then None else Some (ds, dropWhile is_digit r))
          else Some ([], s)
      | [] \<Rightarrow> Some ([], []))"

definition lex_sign :: "string \<Rightarrow> bool \<times> string" where
  "lex_sign s =
     (case s of
        c # r \<Rightarrow> if c = CHR ''-'' then (True, r) else if c = CHR ''+'' then (False, r) else (False, s)
      | [] \<Rightarrow> (False, s))"

definition lex_exp :: "string \<Rightarrow> (int \<times> string) option" where
  "lex_exp s =
     (case s of
        c # r \<Rightarrow>
          if c = CHR ''e'' \<or> c = CHR ''E'' then
            (case lex_sign r of
               (neg, r') \<Rightarrow>
                 let ds = takeWhile is_digit r' in
                 if ds = [] then None
                 else Some (if neg then - int (read_nat ds) else int (read_nat ds), dropWhile is_digit r'))
          else Some (0, s)
      | [] \<Rightarrow> Some (0, []))"

text \<open>Strip trailing decimal zeros: the normal form of \<open>JNum\<close>.\<close>

fun norm_num :: "int \<Rightarrow> nat \<Rightarrow> int \<times> nat" where
  "norm_num m 0 = (m, 0)"
| "norm_num m (Suc d) = (if m mod 10 = 0 then norm_num (m div 10) d else (m, Suc d))"

definition decimal :: "bool \<Rightarrow> nat \<Rightarrow> nat \<Rightarrow> int \<Rightarrow> jsval" where
  "decimal neg mant fd e =
     (let m = (if neg then - int mant else int mant) in
      if int fd \<le> e then JNum (m * 10 ^ nat (e - int fd)) 0
      else case norm_num m (nat (int fd - e)) of (m', d') \<Rightarrow> JNum m' d')"

text \<open>A number after its optional minus sign: integer part, fraction, exponent.\<close>

definition parse_digits :: "bool \<Rightarrow> string \<Rightarrow> (jsval \<times> string) option" where
  "parse_digits neg s1 =
     (case lex_int_part s1 of
        None \<Rightarrow> None
      | Some (ip, s2) \<Rightarrow>
          (case lex_frac s2 of
             None \<Rightarrow> None
           | Some (fp, s3) \<Rightarrow>
               (case lex_exp s3 of
                  None \<Rightarrow> None
                | Some (e, s4) \<Rightarrow> Some (decimal neg (read_nat (ip @ fp)) (length fp) e, s4))))"

definition parse_number :: "string \<Rightarrow> (jsval \<times> string) option" where
  "parse_number s =
     (case s of
        c # r \<Rightarrow> if c = CHR ''-'' then parse_digits True r else parse_digits False s
      | [] \<Rightarrow> parse_digits False s)"

subsection \<open>Values\<close>

text \<open>A member \<open>"k": v\<close> added to an object under construction.\<close>

definition obj_put :: "(string \<times> jsval) list \<Rightarrow> string \<Rightarrow> jsval \<Rightarrow> (string \<times> jsval) list" where
  "obj_put kvs k v =
     (if k \<in> set (map fst kvs) then map (\<lambda>(k', v'). if k' = k then (k', v) else (k', v')) kvs
      else kvs @ [(k, v)])"

fun parse_value :: "nat \<Rightarrow> string \<Rightarrow> (jsval \<times> string) option"
  and parse_elems :: "nat \<Rightarrow> string \<Rightarrow> (jsval list \<times> string) option"
  and parse_members :: "nat \<Rightarrow> (string \<times> jsval) list \<Rightarrow> string \<Rightarrow> ((string \<times> jsval) list \<times> string) option"
where
  "parse_value 0 s = None"
| "parse_value (Suc n) s =
     (case dropWhile is_ws s of
        [] \<Rightarrow> None
      | c # r \<Rightarrow>
          if c = CHR ''{'' then
            (case dropWhile is_ws r of
               [] \<Rightarrow> None
             | d # r' \<Rightarrow> if d = CHR ''}'' then Some (JObj [], r')
                         else map_option (apfst JObj) (parse_members n [] r))
          else if c = CHR ''['' then
            (case dropWhile is_ws r of
               [] \<Rightarrow> None
             | d # r' \<Rightarrow> if d = CHR '']'' then Some (JArr [], r')
                         else map_option (apfst JArr) (parse_elems n r))
          else if c = dquote then map_option (apfst JStr) (parse_chars r)
          else if take 4 (c # r) = ''true'' then Some (JBool True, drop 3 r)
          else if take 5 (c # r) = ''false'' then Some (JBool False, drop 4 r)
          else if take 4 (c # r) = ''null'' then Some (JNull, drop 3 r)
          else parse_number (c # r))"
| "parse_elems 0 s = None"
| "parse_elems (Suc n) s =
     (case parse_value n s of
        None \<Rightarrow> None
      | Some (v, r) \<Rightarrow>
          (case dropWhile is_ws r of
             [] \<Rightarrow> None
           | c # r' \<Rightarrow>
               if c = CHR '','' then map_option (apfst (Cons v)) (parse_elems n r')
               else if c = CHR '']'' then Some ([v], r')
               else None))"
| "parse_members 0 acc s = None"
| "parse_members (Suc n) acc s =
     (case dropWhile is_ws s of
        [] \<Rightarrow> None
      | c # r \<Rightarrow>
          if c \<noteq> dquote then None
          else
            (case parse_chars r of
               None \<Rightarrow> None
             | Some (k, r1) \<Rightarrow>
                 (case dropWhile is_ws r1 of
                    [] \<Rightarrow> None
                  | d # r2 \<Rightarrow>
                      if d \<noteq> CHR '':'' then None
                      else
                        (case parse_value n r2 of
                           None \<Rightarrow> None
                         | Some (v, r3) \<Rightarrow>
                             (case dropWhile is_ws r3 of
                                [] \<Rightarrow> None
                              | e # r4 \<Rightarrow>
                                  if e = CHR '','' then parse_members n (obj_put acc k v) r4
                                  else if e = CHR ''}'' then Some (obj_put acc k v, r4)
                                  else None)))))"

text \<open>
  \<open>JSON.parse(text)\<close>: one value, surrounded by whitespace only; anything else is a
  SyntaxError (its message differs between engines and is not modelled).
\<close>

definition json_parse :: "string \<Rightarrow> jsval option" where
  "json_parse s =
     (case parse_value (Suc (length s)) s of
        None \<Rightarrow> None
      | Some (v, r) \<Rightarrow> if dropWhile is_ws r = [] then Some v else None)"

definition json_syntax_error :: js_error where
  "json_syntax_error = SyntaxError ''Unexpected token in JSON''"

definition JSON_parse :: "string \<Rightarrow> js_error + jsval" where
  "JSON_parse s = (case json_parse s of None \<Rightarrow> Inl json_syntax_error | Some v \<Rightarrow> Inr v)"

subsection \<open>The printer\<close>

definition esc_char :: "char \<Rightarrow> string" where
  "esc_char c =
     (if c = dquote then [bslash, dquote]
      else if c = bslash then [bslash, bslash]
      else if c = CHR 0x08 then [bslash, CHR ''b'']
      else if c = CHR 0x0C then [bslash, CHR ''f'']
      else if c = CHR 0x0A then [bslash, CHR ''n'']
      else if c = CHR 0x0D then [bslash, CHR ''r'']
      else if c = CHR 0x09 then [bslash, CHR ''t'']
      else if of_char c < (32::nat) then
        [bslash, CHR ''u'', CHR ''0'', CHR ''0'', hex_chr (of_char c div 16), hex_chr (of_char c mod 16)]
      else [c])"

definition json_quote :: "string \<Rightarrow> string" where
  "json_quote s = dquote # concat (map esc_char s) @ [dquote]"

fun json_print :: "jsval \<Rightarrow> string"
  and print_elems :: "jsval list \<Rightarrow> string"
  and print_members :: "(string \<times> jsval) list \<Rightarrow> string" where
  "json_print JUndef = ''null''"
| "json_print JNull = ''null''"
| "json_print (JBool b) = (if b then ''true'' else ''false'')"
| "json_print (JNum m d) = num_str m d"
| "json_print (JStr s) = json_quote s"
| "json_print (JArr vs) = CHR ''['' # print_elems vs @ '']''"
| "json_print (JObj kvs) = CHR ''{'' # print_members kvs @ ''}''"
| "print_elems [] = []"
| "print_elems [v] = json_print v"
| "print_elems (v # w # vs) = json_print v @ CHR '','' # print_elems (w # vs)"
| "print_members [] = []"
| "print_members [(k, v)] = json_quote k @ CHR '':'' # json_print v"
| "print_members ((k, v) # kv # kvs) = json_quote k @ CHR '':'' # json_print v @ CHR '','' # print_members (kv # kvs)"

end
