(* ===== verification/JsonRoundtrip.thy ===== *)
theory JsonRoundtrip
  imports Json
begin

text \<open>
  The printer and the parser of Json.thy are inverse on the values JSON text can
  denote (\<open>json_data\<close>: no \<open>undefined\<close>, numbers in normal form, objects
  with distinct keys): \<open>json_parse (json_print v) = Some v\<close>.  The proof goes
  bottom-up: a string's escapes are read back one character at a time
  (\<open>parse_chars_quote\<close>), a number's decimal form is lexed back to the same
  mantissa and scale (\<open>parse_number_num_str\<close>), and a value followed by a
  delimiter is read back with the delimiter left over, by computation induction
  over the printer (\<open>parse_print\<close>).  The fuel a printed value needs is its
  weight \<open>jweight\<close> (two per array or object, one per scalar), which is at most
  the length of its text, so the fuel \<open>json_parse\<close> gives is enough.
\<close>

subsection \<open>Definitions\<close>

definition num_end :: "string \<Rightarrow> bool" where
  "num_end rest \<longleftrightarrow>
     rest = [] \<or> (\<not> is_digit (hd rest) \<and> hd rest \<noteq> CHR ''.'' \<and> hd rest \<noteq> CHR ''e'' \<and> hd rest \<noteq> CHR ''E'')"

fun json_data :: "jsval \<Rightarrow> bool"
  and json_data_list :: "jsval list \<Rightarrow> bool"
  and json_data_members :: "(string \<times> jsval) list \<Rightarrow> bool" where
  "json_data JUndef = False"
| "json_data (JNum m d) = (d = 0 \<or> m mod 10 \<noteq> 0)"
| "json_data (JArr vs) = json_data_list vs"
| "json_data (JObj kvs) = (distinct (map fst kvs) \<and> json_data_members kvs)"
| "json_data _ = True"
| "json_data_list [] = True"
| "json_data_list (v # vs) = (json_data v \<and> json_data_list vs)"
| "json_data_members [] = True"
| "json_data_members ((k, v) # kvs) = (json_data v \<and> json_data_members kvs)"

fun jweight :: "jsval \<Rightarrow> nat"
  and jweights :: "jsval list \<Rightarrow> nat"
  and mweights :: "(string \<times> jsval) list \<Rightarrow> nat" where
  "jweight (JArr vs) = Suc (Suc (jweights vs))"
| "jweight (JObj kvs) = Suc (Suc (mweights kvs))"
| "jweight _ = 1"
| "jweights [] = 0"
| "jweights (v # vs) = jweight v + jweights vs"
| "mweights [] = 0"
| "mweights ((k, v) # kvs) = jweight v + mweights kvs"

definition delim :: "string \<Rightarrow> bool" where
  "delim rest \<longleftrightarrow> rest = [] \<or> hd rest = CHR '','' \<or> hd rest = CHR '']'' \<or> hd rest = CHR ''}''"

subsection \<open>Strings and numbers\<close>

lemma hex_val_hex_chr: "d < 16 \<Longrightarrow> hex_val (hex_chr d) = Some d"
proof (cases "d < 10")
  case True
  then show ?thesis by (simp add: hex_chr_def hex_val_def)
next
  case False
  assume "d < 16"
  then have "d \<in> {10, 11, 12, 13, 14, 15}" using False by auto
  then show ?thesis
    by (auto simp: hex_chr_def hex_val_def is_digit_def)
qed

lemma hex4_esc: "(of_char c :: nat) < 32 \<Longrightarrow>
  hex4 [CHR ''0'', CHR ''0'', hex_chr (of_char c div 16), hex_chr (of_char c mod 16)] = Some c"
proof -
  assume c: "(of_char c :: nat) < 32"
  have "hex_val (CHR ''0'') = Some 0" by (simp add: hex_val_def is_digit_def digit_val_def)
  moreover have "hex_val (hex_chr (of_char c div 16)) = Some (of_char c div 16)"
    using c by (intro hex_val_hex_chr) simp
  moreover have "hex_val (hex_chr (of_char c mod 16)) = Some (of_char c mod 16)"
    by (intro hex_val_hex_chr) simp
  ultimately show ?thesis
    using c by (simp add: hex4_def Let_def)
qed

lemma parse_chars_esc_char:
  "parse_chars (esc_char c @ t) = map_option (apfst (Cons c)) (parse_chars t)"
  by (simp add: esc_char_def hex4_esc simple_escape_def)

lemma num_end_no_digit: "num_end rest \<Longrightarrow> no_digit_start rest"
  by (auto simp: num_end_def no_digit_start_def)

lemma lex_frac_end: "num_end rest \<Longrightarrow> lex_frac rest = Some ([], rest)"
  by (cases rest) (auto simp: lex_frac_def num_end_def)

lemma lex_exp_end: "num_end rest \<Longrightarrow> lex_exp rest = Some (0, rest)"
  by (cases rest) (auto simp: lex_exp_def num_end_def)

lemma list_all_digits_pad: "list_all is_digit (pad_zeros d (nat_str n))"
  using nat_str_digits [of n] by (auto simp: pad_zeros_def list_all_iff is_digit_def)

lemma lex_int_part_nat_str:
  "no_digit_start rest \<Longrightarrow> lex_int_part (nat_str q @ rest) = Some (nat_str q, rest)"
proof -
  assume nd: "no_digit_start rest"
  have t: "takeWhile is_digit (nat_str q @ rest) = nat_str q"
    using nd by (simp add: takeWhile_digits_append nat_str_digits)
  have d: "dropWhile is_digit (nat_str q @ rest) = rest"
    using nd by (simp add: dropWhile_digits_append nat_str_digits)
  have "\<not> (hd (nat_str q) = CHR ''0'' \<and> nat_str q \<noteq> ''0'')"
    using nat_str_hd_zero [of q] by auto
  then show ?thesis
    by (simp add: lex_int_part_def Let_def t d)
qed

lemma parse_number_nat_str: "parse_number (nat_str q @ t) = parse_digits False (nat_str q @ t)"
  using nat_str_digits [of q]
  by (cases "nat_str q") (auto simp: parse_number_def is_digit_def)

lemma parse_number_neg: "parse_number (CHR ''-'' # t) = parse_digits True t"
  by (simp add: parse_number_def)

lemma parse_number_num_str:
  assumes "wf_jsval (JNum m d)" and "num_end rest"
  shows "parse_number (num_str m d @ rest) = Some (JNum m d, rest)"
proof -
  define q where "q = nat \<bar>m\<bar> div 10 ^ d"
  define r where "r = nat \<bar>m\<bar> mod 10 ^ d"
  define fp where "fp = (if d = 0 then [] else pad_zeros d (nat_str r))"
  define frac where "frac = (if d = 0 then [] else CHR ''.'' # fp)"
  have str: "num_str m d @ rest = (if m < 0 then ''-'' else []) @ nat_str q @ frac @ rest"
    by (simp add: num_str_def q_def r_def frac_def fp_def)
  have nd: "no_digit_start (frac @ rest)"
    using num_end_no_digit [OF assms(2)] by (simp add: frac_def no_digit_start_def is_digit_def)
  have fr: "lex_frac (frac @ rest) = Some (fp, rest)"
  proof (cases "d = 0")
    case True
    then show ?thesis using lex_frac_end [OF assms(2)] by (simp add: frac_def fp_def)
  next
    case False
    then have "fp \<noteq> []" by (simp add: fp_def pad_zeros_def)
    with False show ?thesis
      using list_all_digits_pad [of d r] num_end_no_digit [OF assms(2)]
      by (simp add: frac_def fp_def lex_frac_def takeWhile_digits_append dropWhile_digits_append)
  qed
  have len: "length fp = d"
    using length_nat_str_le [of r d] by (simp add: fp_def pad_zeros_def r_def)
  have rd: "read_nat (nat_str q @ fp) = nat \<bar>m\<bar>"
    by (simp add: read_nat_append len) (simp add: fp_def pad_zeros_def q_def r_def div_mult_mod_eq)
  have dec: "decimal (m < 0) (nat \<bar>m\<bar>) d 0 = JNum m d"
  proof (cases d)
    case 0
    then show ?thesis by (simp add: decimal_def)
  next
    case (Suc d')
    then have "m mod 10 \<noteq> 0" using assms(1) by simp
    moreover have "nat (1 + int d') = Suc d'" by simp
    ultimately show ?thesis using Suc by (simp add: decimal_def)
  qed
  have digits: "parse_digits (m < 0) (nat_str q @ frac @ rest) = Some (JNum m d, rest)"
    using lex_int_part_nat_str [OF nd] fr lex_exp_end [OF assms(2)] rd len dec
    by (simp add: parse_digits_def)
  show ?thesis
    using digits by (cases "m < 0") (simp_all add: str parse_number_neg parse_number_nat_str)
qed

lemma parse_chars_quote:
  "parse_chars (concat (map esc_char s) @ dquote # rest) = Some (s, rest)"
  by (induction s) (simp_all add: parse_chars_esc_char)

lemma jweight_pos [simp]: "0 < jweight v"
  by (cases v) simp_all

lemma delim_num_end: "delim rest \<Longrightarrow> num_end rest"
  by (auto simp: delim_def num_end_def is_digit_def)

lemma delim_intros [simp]: "delim []" "delim (CHR '','' # r)" "delim (CHR '']'' # r)" "delim (CHR ''}'' # r)"
  by (simp_all add: delim_def)

lemma num_str_hd: "\<exists>c cs. num_str m d = c # cs \<and> (c = CHR ''-'' \<or> is_digit c)"
proof (cases "nat_str (nat \<bar>m\<bar> div 10 ^ d)")
  case Nil
  then show ?thesis by simp
next
  case (Cons c cs)
  then have "is_digit c"
    using nat_str_digits [of "nat \<bar>m\<bar> div 10 ^ d"] by simp
  with Cons show ?thesis by (auto simp: num_str_def)
qed

lemma json_print_hd:
  "\<exists>c cs. json_print v = c # cs \<and> \<not> is_ws c \<and> c \<noteq> CHR '']'' \<and> c \<noteq> CHR ''}'' \<and> c \<noteq> CHR '',''"
proof (cases v)
  case (JNum m d)
  obtain c cs where "num_str m d = c # cs" and "c = CHR ''-'' \<or> is_digit c"
    using num_str_hd by blast
  with JNum show ?thesis by (auto simp: is_ws_def is_digit_def)
qed (simp_all add: is_ws_def json_quote_def)

subsection \<open>Values\<close>

lemma dropWhile_ws_print [simp]: "dropWhile is_ws (json_print v @ rest) = json_print v @ rest"
  using json_print_hd [of v] by auto

lemma obj_put_fresh: "k \<notin> set (map fst acc) \<Longrightarrow> obj_put acc k v = acc @ [(k, v)]"
  by (simp add: obj_put_def)

lemma json_quote_append: "json_quote k @ t = dquote # concat (map esc_char k) @ dquote # t"
  by (simp add: json_quote_def)

lemma print_elems_hd:
  "vs \<noteq> [] \<Longrightarrow> \<exists>c cs. print_elems vs @ t = c # cs \<and> \<not> is_ws c \<and> c \<noteq> CHR '']''"
proof (cases vs)
  case (Cons v vs')
  then show ?thesis
    using json_print_hd [of v] by (cases vs') auto
qed simp

lemma print_members_hd:
  "kvs \<noteq> [] \<Longrightarrow> \<exists>cs. print_members kvs @ t = dquote # cs"
proof (cases kvs)
  case (Cons kv kvs')
  then show ?thesis
    by (cases kv; cases kvs') (auto simp: json_quote_def)
qed simp

lemma parse_value_num_str:
  "parse_value (Suc n) (num_str m d @ rest) = parse_number (num_str m d @ rest)"
proof -
  obtain c cs where s: "num_str m d = c # cs" and c: "c = CHR ''-'' \<or> is_digit c"
    using num_str_hd by blast
  from c have "\<not> is_ws c \<and> c \<noteq> CHR ''{'' \<and> c \<noteq> CHR ''['' \<and> c \<noteq> dquote \<and>
      c \<noteq> CHR ''t'' \<and> c \<noteq> CHR ''f'' \<and> c \<noteq> CHR ''n''"
    by (auto simp: is_ws_def is_digit_def)
  then show ?thesis
    by (simp add: s)
qed

lemma parse_print:
  "\<forall>n rest. json_data v \<longrightarrow> jweight v \<le> n \<longrightarrow> delim rest \<longrightarrow>
     parse_value n (json_print v @ rest) = Some (v, rest)"
  "\<forall>n rest. vs \<noteq> [] \<longrightarrow> json_data_list vs \<longrightarrow> jweights vs < n \<longrightarrow> delim rest \<longrightarrow>
     parse_elems n (print_elems vs @ CHR '']'' # rest) = Some (vs, rest)"
  "\<forall>n acc rest. kvs \<noteq> [] \<longrightarrow> json_data_members kvs \<longrightarrow> distinct (map fst kvs) \<longrightarrow>
     set (map fst kvs) \<inter> set (map fst acc) = {} \<longrightarrow> mweights kvs < n \<longrightarrow> delim rest \<longrightarrow>
     parse_members n acc (print_members kvs @ CHR ''}'' # rest) = Some (acc @ kvs, rest)"
proof (induction v and vs and kvs rule: json_print_print_elems_print_members.induct)
  case 1
  then show ?case by simp
next
  case 2
  then show ?case by (auto simp: Suc_le_eq is_ws_def dest!: gr0_implies_Suc)
next
  case (3 b)
  then show ?case by (auto simp: Suc_le_eq is_ws_def dest!: gr0_implies_Suc)
next
  case (4 m d)
  show ?case
  proof (intro allI impI)
    fix n rest
    assume d: "json_data (JNum m d)" and w: "jweight (JNum m d) \<le> n" and r: "delim rest"
    then obtain n' where n: "n = Suc n'"
      by (cases n) auto
    have "parse_value (Suc n') (num_str m d @ rest) = Some (JNum m d, rest)"
      using d delim_num_end [OF r]
      by (simp only: parse_value_num_str) (rule parse_number_num_str, simp_all)
    then show "parse_value n (json_print (JNum m d) @ rest) = Some (JNum m d, rest)"
      by (simp only: n json_print.simps)
  qed
next
  case (5 s)
  then show ?case
    by (auto simp: Suc_le_eq json_quote_append parse_chars_quote is_ws_def dest!: gr0_implies_Suc)
next
  case (6 vs)
  show ?case
  proof (intro allI impI)
    fix n rest
    assume d: "json_data (JArr vs)" and w: "jweight (JArr vs) \<le> n" and r: "delim rest"
    then obtain n' where n: "n = Suc n'" and w': "jweights vs < n'"
      by (cases n) auto
    show "parse_value n (json_print (JArr vs) @ rest) = Some (JArr vs, rest)"
    proof (cases "vs = []")
      case True
      then show ?thesis using n by (simp add: is_ws_def)
    next
      case False
      obtain c cs where hd: "print_elems vs @ CHR '']'' # rest = c # cs" and
        c: "\<not> is_ws c" "c \<noteq> CHR '']''"
        using print_elems_hd [OF False] by blast
      have "parse_elems n' (print_elems vs @ CHR '']'' # rest) = Some (vs, rest)"
        using "6.IH" False d w' r by simp
      then have "parse_elems n' (c # cs) = Some (vs, rest)"
        by (simp only: hd)
      then show ?thesis using n hd c by (simp add: is_ws_def)
    qed
  qed
next
  case (7 kvs)
  show ?case
  proof (intro allI impI)
    fix n rest
    assume d: "json_data (JObj kvs)" and w: "jweight (JObj kvs) \<le> n" and r: "delim rest"
    then obtain n' where n: "n = Suc n'" and w': "mweights kvs < n'"
      by (cases n) auto
    show "parse_value n (json_print (JObj kvs) @ rest) = Some (JObj kvs, rest)"
    proof (cases "kvs = []")
      case True
      then show ?thesis using n by (simp add: is_ws_def)
    next
      case False
      obtain cs where hd: "print_members kvs @ CHR ''}'' # rest = dquote # cs"
        using print_members_hd [OF False] by blast
      have "parse_members n' [] (print_members kvs @ CHR ''}'' # rest) = Some ([] @ kvs, rest)"
        using "7.IH" False d w' r by simp
      then have "parse_members n' [] (dquote # cs) = Some (kvs, rest)"
        by (simp only: hd append_Nil)
      then show ?thesis using n hd by (simp add: is_ws_def)
    qed
  qed
next
  case 8
  then show ?case by simp
next
  case (9 v)
  show ?case
  proof (intro allI impI)
    fix n rest
    assume d: "json_data_list [v]" and w: "jweights [v] < n" and r: "delim rest"
    then obtain n' where n: "n = Suc n'" and w': "jweight v \<le> n'"
      by (cases n) auto
    have "parse_value n' (json_print v @ CHR '']'' # rest) = Some (v, CHR '']'' # rest)"
      using "9.IH" d w' by simp
    then show "parse_elems n (print_elems [v] @ CHR '']'' # rest) = Some ([v], rest)"
      using n by (simp add: is_ws_def)
  qed
next
  case (10 v w vs)
  show ?case
  proof (intro allI impI)
    fix n rest
    assume d: "json_data_list (v # w # vs)" and wt: "jweights (v # w # vs) < n" and r: "delim rest"
    obtain n' where n: "n = Suc n'"
      using wt by (cases n) auto
    have w1: "jweight v \<le> n'"
      using wt n jweight_pos [of w] by simp
    have w2: "jweights (w # vs) < n'"
      using wt n jweight_pos [of v] by (simp only: jweights.simps)
    have "parse_value n' (json_print v @ CHR '','' # (print_elems (w # vs) @ CHR '']'' # rest)) =
        Some (v, CHR '','' # (print_elems (w # vs) @ CHR '']'' # rest))"
      using "10.IH"(1) d w1 by simp
    moreover have "parse_elems n' (print_elems (w # vs) @ CHR '']'' # rest) = Some (w # vs, rest)"
      using "10.IH"(2) d w2 r by simp
    ultimately show "parse_elems n (print_elems (v # w # vs) @ CHR '']'' # rest) = Some (v # w # vs, rest)"
      using n by (simp add: is_ws_def)
  qed
next
  case 11
  then show ?case by simp
next
  case (12 k v)
  show ?case
  proof (intro allI impI)
    fix n rest and acc :: "(string \<times> jsval) list"
    assume d: "json_data_members [(k, v)]" and fresh: "set (map fst [(k, v)]) \<inter> set (map fst acc) = {}"
      and w: "mweights [(k, v)] < n" and r: "delim rest"
    then obtain n' where n: "n = Suc n'" and w': "jweight v \<le> n'"
      by (cases n) auto
    have "parse_value n' (json_print v @ CHR ''}'' # rest) = Some (v, CHR ''}'' # rest)"
      using "12.IH" d w' by simp
    moreover have "k \<notin> set (map fst acc)"
      using fresh by auto
    ultimately show "parse_members n acc (print_members [(k, v)] @ CHR ''}'' # rest) = Some (acc @ [(k, v)], rest)"
      using n by (simp add: json_quote_append parse_chars_quote obj_put_fresh is_ws_def)
  qed
next
  case (13 k v kv kvs)
  show ?case
  proof (intro allI impI)
    fix n rest and acc :: "(string \<times> jsval) list"
    assume d: "json_data_members ((k, v) # kv # kvs)" and dist: "distinct (map fst ((k, v) # kv # kvs))"
      and fresh: "set (map fst ((k, v) # kv # kvs)) \<inter> set (map fst acc) = {}"
      and wt: "mweights ((k, v) # kv # kvs) < n" and r: "delim rest"
    obtain k2 v2 where kv: "kv = (k2, v2)" by (cases kv)
    obtain n' where n: "n = Suc n'"
      using wt by (cases n) auto
    have w1: "jweight v \<le> n'"
      using wt n jweight_pos [of v2] by (simp only: kv mweights.simps)
    have w2: "mweights (kv # kvs) < n'"
      using wt n jweight_pos [of v] by (simp only: kv mweights.simps)
    have "parse_value n' (json_print v @ CHR '','' # (print_members (kv # kvs) @ CHR ''}'' # rest)) =
        Some (v, CHR '','' # (print_members (kv # kvs) @ CHR ''}'' # rest))"
      using "13.IH"(1) d w1 by simp
    moreover have "k \<notin> set (map fst acc)"
      using fresh by auto
    moreover have "parse_members n' (acc @ [(k, v)]) (print_members (kv # kvs) @ CHR ''}'' # rest) =
        Some ((acc @ [(k, v)]) @ kv # kvs, rest)"
      using "13.IH"(2) d dist fresh w2 r by auto
    ultimately show "parse_members n acc (print_members ((k, v) # kv # kvs) @ CHR ''}'' # rest) =
        Some (acc @ (k, v) # kv # kvs, rest)"
      using n by (simp add: json_quote_append parse_chars_quote obj_put_fresh is_ws_def)
  qed
qed

lemma jweight_le_length:
  "jweight v \<le> length (json_print v)"
  "jweights vs \<le> length (print_elems vs)"
  "mweights kvs \<le> length (print_members kvs)"
proof (induction v and vs and kvs rule: json_print_print_elems_print_members.induct)
  case (4 m d)
  then show ?case using num_str_hd [of m d] by auto
qed (simp_all add: json_quote_def)

theorem json_parse_print: "json_data v \<Longrightarrow> json_parse (json_print v) = Some v"
proof -
  assume d: "json_data v"
  have "parse_value (Suc (length (json_print v))) (json_print v @ []) = Some (v, [])"
    by (rule parse_print(1) [rule_format]) (use d jweight_le_length(1) [of v] in auto)
  then show ?thesis
    by (simp del: parse_value.simps add: json_parse_def)
qed

end
