(* ===== verification/Dom.thy ===== *)
theory Dom
  imports Promise
begin

text \<open>
  The part of the browser page the scripts read and write.  The pages' HTML is not
  in the repository, so the elements present are a field of the state
  (\<open>ids\<close>): \<open>document.querySelector("#quote")\<close> yields the element or
  \<open>null\<close>, and assigning a property of \<open>null\<close> throws.  What an element shows is
  the last string assigned to it, tagged with how it was assigned: through
  \<open>innerText\<close>, \<open>textContent\<close> or jQuery's \<open>.text()\<close> (shown as text) or through
  \<open>innerHTML\<close> (parsed as markup).  Image sources, the console and the errors the
  browser reports (uncaught exceptions and unhandled rejections) are the other
  observable effects.  jQuery's setters act on every element the selector matched,
  so on a missing element they do nothing instead of throwing.
\<close>

datatype content = Text string | Html string

record page =
  ids :: "elem_id list"
  shown :: "elem_id \<Rightarrow> content option"
  img_src :: "elem_id \<Rightarrow> string option"
  console :: "string list"
  reported :: "string list"

text \<open>\<open>document.querySelector("#" + i)\<close>: the element, or \<open>null\<close> (\<open>None\<close>).\<close>

definition query_id :: "page \<Rightarrow> elem_id \<Rightarrow> elem_id option" where
  "query_id p i = (if i \<in> set (ids p) then Some i else None)"

definition set_error :: "string \<Rightarrow> js_error" where
  "set_error prop = TypeError (''Cannot set properties of null (setting '' @ [CHR 0x27] @ prop @ [CHR 0x27] @ '')'')"

text \<open>\<open>el.innerHTML = s\<close>, \<open>el.innerText = s\<close>, \<open>el.textContent = s\<close>, \<open>el.src = s\<close>
  for an element reference \<open>el\<close> that may be \<open>null\<close>.\<close>

text \<open>The value a script assigns to \<open>innerHTML\<close> or \<open>innerText\<close> is converted
  to a DOMString with the WebIDL extended attribute \<open>[LegacyNullToEmptyString]\<close>:
  \<open>null\<close> becomes the empty string, every other value its \<open>String(v)\<close>.\<close>

definition legacy_null_to_empty :: "jsval \<Rightarrow> string" where
  "legacy_null_to_empty v = (if v = JNull then [] else js_to_string v)"

definition assign_prop :: "string \<Rightarrow> (elem_id \<Rightarrow> page \<Rightarrow> page) \<Rightarrow> elem_id option \<Rightarrow> (page, unit) js" where
  "assign_prop prop upd el = (case el of None \<Rightarrow> js_throw (set_error prop) | Some i \<Rightarrow> js_modify (upd i))"

definition set_inner_html :: "elem_id option \<Rightarrow> string \<Rightarrow> (page, unit) js" where
  "set_inner_html el s = assign_prop ''innerHTML'' (\<lambda>i p. p\<lparr>shown := (shown p)(i \<mapsto> Html s)\<rparr>) el"

definition set_inner_text :: "elem_id option \<Rightarrow> string \<Rightarrow> (page, unit) js" where
  "set_inner_text el s = assign_prop ''innerText'' (\<lambda>i p. p\<lparr>shown := (shown p)(i \<mapsto> Text s)\<rparr>) el"

definition set_text_content :: "elem_id option \<Rightarrow> string \<Rightarrow> (page, unit) js" where
  "set_text_content el s = assign_prop ''textContent'' (\<lambda>i p. p\<lparr>shown := (shown p)(i \<mapsto> Text s)\<rparr>) el"

definition set_src :: "elem_id option \<Rightarrow> string \<Rightarrow> (page, unit) js" where
  "set_src el s = assign_prop ''src'' (\<lambda>i p. p\<lparr>img_src := (img_src p)(i \<mapsto> s)\<rparr>) el"

text \<open>jQuery: \<open>$("#" + i).text(s)\<close> and \<open>$("#" + i).attr("src", s)\<close>.\<close>

definition jq_text :: "elem_id \<Rightarrow> string \<Rightarrow> page \<Rightarrow> page" where
  "jq_text i s p = (if i \<in> set (ids p) then p\<lparr>shown := (shown p)(i \<mapsto> Text s)\<rparr> else p)"

definition jq_attr_src :: "elem_id \<Rightarrow> string \<Rightarrow> page \<Rightarrow> page" where
  "jq_attr_src i s p = (if i \<in> set (ids p) then p\<lparr>img_src := (img_src p)(i \<mapsto> s)\<rparr> else p)"

text \<open>An undeclared identifier \<open>i\<close> in a script: the browser's named access on the
  window object resolves it to the element with id \<open>i\<close> when there is one;
  otherwise the reference is unresolvable and reading it throws a ReferenceError.\<close>

definition named_element :: "elem_id \<Rightarrow> (page, elem_id) js" where
  "named_element i p =
     (if i \<in> set (ids p) then (Normal i, p) else (Throw (ReferenceError (i @ '' is not defined'')), p))"

text \<open>\<open>el.addEventListener("click", f)\<close> on a reference that may be \<open>null\<close>,
  over the list of registered listeners.\<close>

definition add_listener :: "elem_id option \<Rightarrow> 'b \<Rightarrow> ('b list, unit) js" where
  "add_listener el b =
     (case el of None \<Rightarrow> js_throw (read_error ''null'' ''addEventListener'')
               | Some i \<Rightarrow> js_modify (\<lambda>ls. ls @ [b]))"

definition console_log :: "string \<Rightarrow> page \<Rightarrow> page" where
  "console_log s p = p\<lparr>console := console p @ [s]\<rparr>"

text \<open>What the browser reports for an exception nobody caught: thrown by an event
  handler (\<open>Uncaught\<close>) or rejecting a promise nobody handles.\<close>

definition report_uncaught :: "js_error \<Rightarrow> page \<Rightarrow> page" where
  "report_uncaught e p = p\<lparr>reported := reported p @ [''Uncaught '' @ error_to_string e]\<rparr>"

definition report_unhandled :: "js_error \<Rightarrow> page \<Rightarrow> page" where
  "report_unhandled e p = p\<lparr>reported := reported p @ [''Uncaught (in promise) '' @ error_to_string e]\<rparr>"

subsection \<open>Evaluation rules\<close>

lemma query_id_present [simp, js_eval]: "i \<in> set (ids p) \<Longrightarrow> query_id p i = Some i"
  by (simp add: query_id_def)

lemma assign_prop_Some [simp, js_eval]: "assign_prop prop upd (Some i) = js_modify (upd i)"
  by (simp add: assign_prop_def)

lemma assign_prop_None [simp, js_eval]: "assign_prop prop upd None = js_throw (set_error prop)"
  by (simp add: assign_prop_def)

lemma named_element_present [simp, js_eval]: "i \<in> set (ids p) \<Longrightarrow> named_element i p = (Normal i, p)"
  by (simp add: named_element_def)

lemma named_element_absent [simp, js_eval]:
  "i \<notin> set (ids p) \<Longrightarrow> named_element i p = (Throw (ReferenceError (i @ '' is not defined'')), p)"
  by (simp add: named_element_def)

lemma legacy_null_to_empty_simps [simp, js_eval]:
  "legacy_null_to_empty JNull = []"
  "v \<noteq> JNull \<Longrightarrow> legacy_null_to_empty v = js_to_string v"
  by (simp_all add: legacy_null_to_empty_def)

lemmas dom_setters [js_eval] =
  set_inner_html_def set_inner_text_def set_text_content_def set_src_def
  jq_text_def jq_attr_src_def console_log_def report_uncaught_def report_unhandled_def

text \<open>Frame rules: the console and the reports only grow, by the writes that name
  them.\<close>

lemma console_log_console [simp]: "console (console_log s p) = console p @ [s]"
  by (simp add: console_log_def)

lemma ids_unchanged [simp]:
  "ids (console_log s p) = ids p" "ids (jq_text i s p) = ids p" "ids (jq_attr_src i s p) = ids p"
  "ids (report_uncaught e p) = ids p" "ids (report_unhandled e p) = ids p"
  by (simp_all add: dom_setters)

end
