(* ===== verification/Fetch.thy ===== *)
theory Fetch
  imports Json Dom
begin

text \<open>
  The network and the platform's \<open>fetch\<close> API as the scripts use it: one GET of
  a fixed URL, no headers, no body.  The network is a function from the URL to what
  comes back: a transport failure (DNS, refused connection, CORS) or an HTTP
  response with its status, status text, content type and body text.  Which one
  it is for a URL is not up to the scripts, so every theorem about a request is
  stated for an arbitrary network.  \<open>fetch(url)\<close> rejects with a TypeError only
  on a transport failure and fulfils with the Response for every status, 404 and
  500 included (the Fetch standard); \<open>response.ok\<close> tells the 2xx statuses from
  the others; \<open>response.json()\<close> parses the body with \<open>JSON.parse\<close>.
\<close>

record http_response =
  resp_status :: nat
  resp_status_text :: string
  resp_ctype :: string
  resp_body :: string

datatype net_result = NetFail | Reply http_response

type_synonym network = "url \<Rightarrow> net_result"

definition fetch_failed :: js_error where
  "fetch_failed = TypeError ''Failed to fetch''"

definition fetch :: "network \<Rightarrow> url \<Rightarrow> ('s, http_response) js" where
  "fetch net u = (case net u of NetFail \<Rightarrow> js_throw fetch_failed | Reply r \<Rightarrow> js_return r)"

definition response_ok :: "http_response \<Rightarrow> bool" where
  "response_ok r \<longleftrightarrow> 200 \<le> resp_status r \<and> resp_status r \<le> 299"

text \<open>The Response object's data properties, as the scripts read them.\<close>

definition response_prop :: "http_response \<Rightarrow> string \<Rightarrow> jsval" where
  "response_prop r k =
     (if k = ''ok'' then JBool (response_ok r)
      else if k = ''status'' then js_int (int (resp_status r))
      else if k = ''statusText'' then JStr (resp_status_text r)
      else JUndef)"

definition response_json :: "http_response \<Rightarrow> ('s, jsval) js" where
  "response_json r = js_of_sum (JSON_parse (resp_body r))"

text \<open>\<open>console.log(v)\<close> of a value that is not a string: the console's display of
  it, approximated by its JSON text.\<close>

definition console_show :: "jsval \<Rightarrow> string" where
  "console_show v = (case v of JUndef \<Rightarrow> ''undefined'' | JStr s \<Rightarrow> s | _ \<Rightarrow> json_print v)"

subsection \<open>Evaluation rules\<close>

lemma fetch_NetFail [simp, js_eval]: "net u = NetFail \<Longrightarrow> fetch net u = js_throw fetch_failed"
  by (simp add: fetch_def)

lemma fetch_Reply [simp, js_eval]: "net u = Reply r \<Longrightarrow> fetch net u = js_return r"
  by (simp add: fetch_def)

lemma response_prop_ok [simp, js_eval]: "response_prop r ''ok'' = JBool (response_ok r)"
  by (simp add: response_prop_def)

lemma response_prop_status [simp, js_eval]: "response_prop r ''status'' = js_int (int (resp_status r))"
  by (simp add: response_prop_def)

lemma response_json_parse [simp, js_eval]:
  "json_parse (resp_body r) = Some v \<Longrightarrow> response_json r = js_return v"
  "json_parse (resp_body r) = None \<Longrightarrow> response_json r = js_throw json_syntax_error"
  by (simp_all add: response_json_def JSON_parse_def)

end
