(* ===== verification/Axios.thy ===== *)
theory Axios
  imports Fetch
begin

text \<open>
  The axios library's \<open>axios.get(url)\<close> in a browser, as far as the Ron Swanson
  axios button sees it (library behaviour with its default configuration, not code
  of the repository).  The response body goes through the default
  \<open>transformResponse\<close>: a non-empty string body is parsed with \<open>JSON.parse\<close>,
  and because \<open>transitional.silentJSONParsing\<close> is on by default a body that does
  not parse is kept as the string itself, without an error.  The promise then
  settles by \<open>validateStatus\<close>: fulfilled with the response object
  \<open>{data, status, statusText}\<close> for a status in [200, 300), rejected with an
  \<open>AxiosError\<close> carrying that response otherwise; a transport failure rejects
  with an \<open>AxiosError\<close> "Network Error" that has a \<open>request\<close> and no
  \<open>response\<close>.
\<close>

definition axios_data :: "string \<Rightarrow> jsval" where
  "axios_data body =
     (if body = [] then JStr [] else case json_parse body of Some v \<Rightarrow> v | None \<Rightarrow> JStr body)"

definition axios_response :: "http_response \<Rightarrow> jsval" where
  "axios_response r =
     JObj [(''data'', axios_data (resp_body r)), (''status'', js_int (int (resp_status r))),
           (''statusText'', JStr (resp_status_text r))]"

definition axios_valid_status :: "nat \<Rightarrow> bool" where
  "axios_valid_status s \<longleftrightarrow> 200 \<le> s \<and> s < 300"

text \<open>The XMLHttpRequest object axios used, as \<open>error.request\<close> shows it.\<close>

definition axios_request :: jsval where
  "axios_request = JObj []"

definition axios_get :: "network \<Rightarrow> url \<Rightarrow> ('s, jsval) js" where
  "axios_get net u =
     (case net u of
        NetFail \<Rightarrow> js_throw (AxiosError ''Network Error'' JUndef axios_request)
      | Reply r \<Rightarrow>
          if axios_valid_status (resp_status r) then js_return (axios_response r)
          else js_throw (AxiosError (''Request failed with status code '' @ nat_str (resp_status r))
                          (axios_response r) axios_request))"

lemma axios_valid_status_ok: "axios_valid_status s \<longleftrightarrow> 200 \<le> s \<and> s \<le> 299"
  by (auto simp: axios_valid_status_def)

lemma axios_response_data [simp, js_eval]:
  "get_prop (axios_response r) ''data'' = Inr (axios_data (resp_body r))"
  by (simp add: axios_response_def)

lemma axios_data_json [simp, js_eval]:
  "json_parse body = Some v \<Longrightarrow> axios_data body = v"
  by (auto simp: axios_data_def json_parse_def)

lemma axios_data_not_json [simp, js_eval]:
  "json_parse body = None \<Longrightarrow> axios_data body = JStr body"
  by (simp add: axios_data_def)

text \<open>Every rejection of \<open>axios.get\<close> is an AxiosError whose \<open>request\<close> is set.\<close>

lemma axios_get_rejects_with_request:
  "axios_get net u s = (Throw e, s') \<Longrightarrow> js_truthy (error_prop e ''request'')"
  by (auto simp: axios_get_def axios_request_def js_throw_def js_return_def
      split: net_result.splits if_splits)

end
