(* ===== verification/Xhr.thy ===== *)
theory Xhr
  imports Fetch
begin

text \<open>
  The XMLHttpRequest object (WHATWG XHR standard) as the two XHR scripts drive it:
  \<open>new XMLHttpRequest()\<close>, an \<open>onreadystatechange\<close> handler, \<open>open("GET", url)\<close>
  and \<open>send()\<close>; the network then delivers the response headers, the body in any
  number of chunks and its end, or a network error.  The object is a state machine
  over \<open>readyState\<close> 0-4.  Each event is one step of \<open>xhr_step\<close>, which says
  whether the step is possible in the state and whether it fires
  \<open>readystatechange\<close>: \<open>open\<close> does (to OPENED), \<open>send\<close> does not, every
  header, chunk and end event does, and a network error moves to DONE with status 0
  and an empty response.  \<open>xhr_run\<close> runs a list of events and calls the handler
  after each firing step, with the object as the handler sees it.  The steps are
  also an inductive relation, with the reachable states and their invariant.
\<close>

datatype ready_state = UNSENT | OPENED | HEADERS_RECEIVED | LOADING | DONE

fun ready_num :: "ready_state \<Rightarrow> nat" where
  "ready_num UNSENT = 0"
| "ready_num OPENED = 1"
| "ready_num HEADERS_RECEIVED = 2"
| "ready_num LOADING = 3"
| "ready_num DONE = 4"

record xhr =
  ready :: ready_state
  xstatus :: nat
  xtext :: string
  send_flag :: bool

definition xhr_new :: xhr where
  "xhr_new = \<lparr>ready = UNSENT, xstatus = 0, xtext = [], send_flag = False\<rparr>"

datatype xhr_event = XOpen | XSend | XHeaders nat | XChunk string | XEnd | XNetError

fun xhr_step :: "xhr \<Rightarrow> xhr_event \<Rightarrow> (xhr \<times> bool) option" where
  "xhr_step x XOpen =
     (if ready x = UNSENT then Some (x\<lparr>ready := OPENED\<rparr>, True) else None)"
| "xhr_step x XSend =
     (if ready x = OPENED \<and> \<not> send_flag x then Some (x\<lparr>send_flag := True\<rparr>, False) else None)"
| "xhr_step x (XHeaders st) =
     (if ready x = OPENED \<and> send_flag x then Some (x\<lparr>ready := HEADERS_RECEIVED, xstatus := st\<rparr>, True)
      else None)"
| "xhr_step x (XChunk t) =
     (if ready x = HEADERS_RECEIVED \<or> ready x = LOADING
      then Some (x\<lparr>ready := LOADING, xtext := xtext x @ t\<rparr>, True) else None)"
| "xhr_step x XEnd =
     (if ready x = HEADERS_RECEIVED \<or> ready x = LOADING then Some (x\<lparr>ready := DONE\<rparr>, True)
      else None)"
| "xhr_step x XNetError =
     (if send_flag x \<and> (ready x = OPENED \<or> ready x = HEADERS_RECEIVED \<or> ready x = LOADING)
      then Some (x\<lparr>ready := DONE, xstatus := 0, xtext := []\<rparr>, True) else None)"

text \<open>\<open>XHR.response\<close> and \<open>XHR.responseText\<close> for the default response type: the
  text received so far, once loading has started.\<close>

definition xhr_response :: "xhr \<Rightarrow> string" where
  "xhr_response x = (if ready x = LOADING \<or> ready x = DONE then xtext x else [])"

fun xhr_run :: "(xhr \<Rightarrow> 's \<Rightarrow> 's) \<Rightarrow> xhr \<Rightarrow> xhr_event list \<Rightarrow> 's \<Rightarrow> (xhr \<times> 's) option" where
  "xhr_run h x [] s = Some (x, s)"
| "xhr_run h x (e # es) s =
     (case xhr_step x e of
        None \<Rightarrow> None
      | Some (x', fire) \<Rightarrow> xhr_run h x' es (if fire then h x' s else s))"

text \<open>What the network delivers for a request: the headers, the body split into
  chunks, the end; or a network error.\<close>

fun net_events :: "net_result \<Rightarrow> string list \<Rightarrow> xhr_event list" where
  "net_events NetFail chunks = [XNetError]"
| "net_events (Reply r) chunks = XHeaders (resp_status r) # map XChunk chunks @ [XEnd]"

definition chunking :: "net_result \<Rightarrow> string list \<Rightarrow> bool" where
  "chunking res chunks \<longleftrightarrow> (case res of NetFail \<Rightarrow> True | Reply r \<Rightarrow> concat chunks = resp_body r)"

text \<open>The object after the whole exchange.\<close>

fun xhr_final :: "net_result \<Rightarrow> xhr" where
  "xhr_final NetFail = \<lparr>ready = DONE, xstatus = 0, xtext = [], send_flag = True\<rparr>"
| "xhr_final (Reply r) = \<lparr>ready = DONE, xstatus = resp_status r, xtext = resp_body r, send_flag = True\<rparr>"

subsection \<open>The step relation and its reachable states\<close>

inductive xhr_trans :: "xhr \<Rightarrow> xhr \<Rightarrow> bool" where
  step: "xhr_step x e = Some (x', fire) \<Longrightarrow> xhr_trans x x'"

inductive xhr_reachable :: "xhr \<Rightarrow> bool" where
  init: "xhr_reachable xhr_new"
| advance: "xhr_reachable x \<Longrightarrow> xhr_trans x x' \<Longrightarrow> xhr_reachable x'"

definition xhr_inv :: "xhr \<Rightarrow> bool" where
  "xhr_inv x \<longleftrightarrow>
     (ready x = UNSENT \<longrightarrow> \<not> send_flag x) \<and>
     (ready x \<in> {UNSENT, OPENED} \<longrightarrow> xstatus x = 0 \<and> xtext x = []) \<and>
     (ready x = HEADERS_RECEIVED \<longrightarrow> xtext x = []) \<and>
     (ready x \<in> {HEADERS_RECEIVED, LOADING, DONE} \<longrightarrow> send_flag x)"

text \<open>A handler that does nothing before readyState 4, as both XHR scripts' handlers
  are: the interface the session lemma is stated over.\<close>

definition waits_for_done :: "(xhr \<Rightarrow> 's \<Rightarrow> 's) \<Rightarrow> bool" where
  "waits_for_done h \<longleftrightarrow> (\<forall>x s. ready x \<noteq> DONE \<longrightarrow> h x s = s)"

inductive_cases xhr_trans_cases: "xhr_trans x x'"

subsection \<open>Steps\<close>

lemma xhr_final_ready [simp]: "ready (xhr_final res) = DONE"
  by (cases res) simp_all

lemma ready_num_eq_4 [simp]: "ready_num r = 4 \<longleftrightarrow> r = DONE"
  by (cases r) simp_all

text \<open>Both XHR scripts guard their handler with \<open>XHR.readyState == 4 && \<dots>\<close>.\<close>

lemma waits_for_done_guard [intro]:
  "waits_for_done (\<lambda>x s. if ready_num (ready x) = 4 \<and> P x then f x s else s)"
  by (simp add: waits_for_done_def)

lemma xhr_step_inv: "xhr_inv x \<Longrightarrow> xhr_step x e = Some (x', fire) \<Longrightarrow> xhr_inv x'"
  by (cases e; cases "ready x"; clarsimp simp: xhr_inv_def split: if_splits)

lemma xhr_step_done: "ready x = DONE \<Longrightarrow> xhr_step x e = None"
  by (cases e) auto

lemma xhr_step_mono: "xhr_step x e = Some (x', fire) \<Longrightarrow> ready_num (ready x) \<le> ready_num (ready x')"
  by (cases e; cases "ready x"; clarsimp split: if_splits)

lemma xhr_step_chunk:
  "ready x = HEADERS_RECEIVED \<or> ready x = LOADING \<Longrightarrow>
     xhr_step x (XChunk c) = Some (x\<lparr>ready := LOADING, xtext := xtext x @ c\<rparr>, True)"
  by simp

lemma xhr_step_end:
  "ready x = HEADERS_RECEIVED \<or> ready x = LOADING \<Longrightarrow> xhr_step x XEnd = Some (x\<lparr>ready := DONE\<rparr>, True)"
  by simp

subsection \<open>Sessions\<close>

text \<open>The body phase: the chunks and the end, for a handler that waits for DONE.\<close>

lemma xhr_run_chunks_wait:
  assumes "waits_for_done h" and "ready x = HEADERS_RECEIVED \<or> ready x = LOADING"
  shows "xhr_run h x (map XChunk cs @ [XEnd]) s =
           Some (x\<lparr>ready := DONE, xtext := xtext x @ concat cs\<rparr>,
                 h (x\<lparr>ready := DONE, xtext := xtext x @ concat cs\<rparr>) s)"
  using assms(2)
proof (induction cs arbitrary: x)
  case Nil
  then show ?case by (simp add: xhr_step_end)
next
  case (Cons c cs)
  let ?y = "x\<lparr>ready := LOADING, xtext := xtext x @ c\<rparr>"
  have w: "h ?y s = s"
    using assms(1) by (simp add: waits_for_done_def)
  have "xhr_run h x (map XChunk (c # cs) @ [XEnd]) s = xhr_run h ?y (map XChunk cs @ [XEnd]) s"
    using Cons.prems w by (simp only: list.map append_Cons xhr_run.simps xhr_step_chunk) simp
  also have "\<dots> = Some (?y\<lparr>ready := DONE, xtext := xtext ?y @ concat cs\<rparr>,
                 h (?y\<lparr>ready := DONE, xtext := xtext ?y @ concat cs\<rparr>) s)"
    by (rule Cons.IH) simp
  finally show ?case by simp
qed

text \<open>A whole request: however the network splits the body, a handler that waits
  for DONE runs once, on the final object.\<close>

lemma xhr_run_session:
  assumes "waits_for_done h" and "chunking res chunks"
  shows "xhr_run h xhr_new (XOpen # XSend # net_events res chunks) s =
           Some (xhr_final res, h (xhr_final res) s)"
proof (cases res)
  case NetFail
  with assms show ?thesis by (simp add: xhr_new_def waits_for_done_def)
next
  case (Reply r)
  define x3 where "x3 = \<lparr>ready = HEADERS_RECEIVED, xstatus = resp_status r, xtext = [], send_flag = True\<rparr>"
  have h1: "h (xhr_new\<lparr>ready := OPENED\<rparr>) s = s"
    using assms(1) by (simp add: waits_for_done_def xhr_new_def)
  have h3: "h x3 s = s"
    using assms(1) by (simp add: waits_for_done_def x3_def)
  have "xhr_run h xhr_new (XOpen # XSend # net_events res chunks) s =
        xhr_run h x3 (map XChunk chunks @ [XEnd]) s"
    using Reply h1 h3 by (simp add: xhr_new_def x3_def)
  also have "\<dots> = Some (x3\<lparr>ready := DONE, xtext := xtext x3 @ concat chunks\<rparr>,
                 h (x3\<lparr>ready := DONE, xtext := xtext x3 @ concat chunks\<rparr>) s)"
    by (rule xhr_run_chunks_wait [OF assms(1)]) (simp add: x3_def)
  also have "x3\<lparr>ready := DONE, xtext := xtext x3 @ concat chunks\<rparr> = xhr_final res"
    using Reply assms(2) by (simp add: x3_def chunking_def)
  finally show ?thesis .
qed

text \<open>Every request runs to its end: the machine accepts the events of a request
  whatever the network delivers, for any handler.\<close>

lemma xhr_run_chunks_some:
  "ready x = HEADERS_RECEIVED \<or> ready x = LOADING \<Longrightarrow>
     \<exists>y t. xhr_run h x (map XChunk cs @ [XEnd]) s = Some (y, t)"
proof (induction cs arbitrary: x s)
  case Nil
  then show ?case by (simp add: xhr_step_end)
next
  case (Cons c cs)
  let ?y = "x\<lparr>ready := LOADING, xtext := xtext x @ c\<rparr>"
  have "xhr_run h x (map XChunk (c # cs) @ [XEnd]) s = xhr_run h ?y (map XChunk cs @ [XEnd]) (h ?y s)"
    using Cons.prems by (simp only: list.map append_Cons xhr_run.simps xhr_step_chunk) simp
  moreover have "\<exists>y t. xhr_run h ?y (map XChunk cs @ [XEnd]) (h ?y s) = Some (y, t)"
    by (rule Cons.IH) simp
  ultimately show ?case by simp
qed

lemma xhr_run_request_some:
  "\<exists>y t. xhr_run h xhr_new (XOpen # XSend # net_events res chunks) s = Some (y, t)"
proof (cases res)
  case NetFail
  then show ?thesis by (simp add: xhr_new_def)
next
  case (Reply r)
  let ?x3 = "\<lparr>ready = HEADERS_RECEIVED, xstatus = resp_status r, xtext = [], send_flag = True\<rparr>"
  have "xhr_run h xhr_new (XOpen # XSend # net_events res chunks) s =
        xhr_run h ?x3 (map XChunk chunks @ [XEnd]) (h ?x3 (h (xhr_new\<lparr>ready := OPENED\<rparr>) s))"
    using Reply by (simp add: xhr_new_def)
  moreover have "\<exists>y t. xhr_run h ?x3 (map XChunk chunks @ [XEnd]) (h ?x3 (h (xhr_new\<lparr>ready := OPENED\<rparr>) s)) = Some (y, t)"
    by (rule xhr_run_chunks_some) simp
  ultimately show ?thesis by simp
qed

text \<open>The states the handler is called with, recorded by a handler that appends them:
  during the body phase all are LOADING but the last.\<close>

lemma xhr_run_chunks_trace:
  assumes "ready x = HEADERS_RECEIVED \<or> ready x = LOADING"
  shows "\<exists>ys. xhr_run (\<lambda>y l. l @ [y]) x (map XChunk cs @ [XEnd]) l =
           Some (x\<lparr>ready := DONE, xtext := xtext x @ concat cs\<rparr>,
                 l @ ys @ [x\<lparr>ready := DONE, xtext := xtext x @ concat cs\<rparr>]) \<and>
           (\<forall>y \<in> set ys. ready y = LOADING)"
  using assms
proof (induction cs arbitrary: x l)
  case Nil
  then show ?case by (simp add: xhr_step_end)
next
  case (Cons c cs)
  let ?y = "x\<lparr>ready := LOADING, xtext := xtext x @ c\<rparr>"
  have run: "xhr_run (\<lambda>y l. l @ [y]) x (map XChunk (c # cs) @ [XEnd]) l =
      xhr_run (\<lambda>y l. l @ [y]) ?y (map XChunk cs @ [XEnd]) (l @ [?y])"
    using Cons.prems by (simp only: list.map append_Cons xhr_run.simps xhr_step_chunk) simp
  have "ready ?y = HEADERS_RECEIVED \<or> ready ?y = LOADING"
    by simp
  from Cons.IH [where x = ?y and l = "l @ [?y]", OF this]
  obtain ys where ys_both: "xhr_run (\<lambda>y l. l @ [y]) ?y (map XChunk cs @ [XEnd]) (l @ [?y]) =
           Some (?y\<lparr>ready := DONE, xtext := xtext ?y @ concat cs\<rparr>,
                 (l @ [?y]) @ ys @ [?y\<lparr>ready := DONE, xtext := xtext ?y @ concat cs\<rparr>]) \<and>
           (\<forall>y \<in> set ys. ready y = LOADING)" ..
  have "xhr_run (\<lambda>y l. l @ [y]) x (map XChunk (c # cs) @ [XEnd]) l =
      xhr_run (\<lambda>y l. l @ [y]) ?y (map XChunk cs @ [XEnd]) (l @ [?y])"
    by (rule run)
  also have "\<dots> = Some (?y\<lparr>ready := DONE, xtext := xtext ?y @ concat cs\<rparr>,
                 (l @ [?y]) @ ys @ [?y\<lparr>ready := DONE, xtext := xtext ?y @ concat cs\<rparr>])"
    by (rule conjunct1 [OF ys_both])
  also have "\<dots> = Some (x\<lparr>ready := DONE, xtext := xtext x @ concat (c # cs)\<rparr>,
            l @ (?y # ys) @ [x\<lparr>ready := DONE, xtext := xtext x @ concat (c # cs)\<rparr>])"
    by simp
  finally have "xhr_run (\<lambda>y l. l @ [y]) x (map XChunk (c # cs) @ [XEnd]) l =
      Some (x\<lparr>ready := DONE, xtext := xtext x @ concat (c # cs)\<rparr>,
            l @ (?y # ys) @ [x\<lparr>ready := DONE, xtext := xtext x @ concat (c # cs)\<rparr>])" .
  moreover have "\<forall>y \<in> set (?y # ys). ready y = LOADING"
    using conjunct2 [OF ys_both] by simp
  ultimately show ?case
    by (rule exI [where x = "?y # ys", OF conjI])
qed

subsection \<open>Properties of the XMLHttpRequest machine\<close>

text \<open>
  Every state an XMLHttpRequest reaches satisfies the invariant: before
  \<open>send()\<close> nothing has been received and the status is 0; once headers
  arrived, \<open>send()\<close> has been called; the response text starts only after the
  headers.
\<close>

theorem xhr_reachable_inv: "xhr_reachable x \<Longrightarrow> xhr_inv x"
proof (induction rule: xhr_reachable.induct)
  case init
  then show ?case by (simp add: xhr_inv_def xhr_new_def)
next
  case (advance x x')
  then show ?case by (auto elim!: xhr_trans_cases intro: xhr_step_inv)
qed

theorem xhr_reachable_inv_witness: "xhr_inv (xhr_new\<lparr>ready := OPENED\<rparr>)"
proof -
  have "xhr_trans xhr_new (xhr_new\<lparr>ready := OPENED\<rparr>)"
    by (rule xhr_trans.step [where e = XOpen and fire = True]) (simp add: xhr_new_def)
  then have "xhr_reachable (xhr_new\<lparr>ready := OPENED\<rparr>)"
    by (rule xhr_reachable.advance [OF xhr_reachable.init])
  then show ?thesis by (rule xhr_reachable_inv)
qed

text \<open>
  In a whole request (open, send, then what the network delivers, the body split
  into any chunks), the \<open>onreadystatechange\<close> handler is called with readyState 4
  exactly once, on the final object, whose status and text are the response's (status
  0 and empty text on a network error).
\<close>

theorem xhr_session_done_once:
  assumes "chunking res chunks"
  shows "\<exists>fs. xhr_run (\<lambda>y l. l @ [y]) xhr_new (XOpen # XSend # net_events res chunks) [] =
                 Some (xhr_final res, fs) \<and>
               filter (\<lambda>y. ready y = DONE) fs = [xhr_final res]"
proof (cases res)
  case NetFail
  then show ?thesis by (simp add: xhr_new_def)
next
  case (Reply r)
  define x3 where "x3 = \<lparr>ready = HEADERS_RECEIVED, xstatus = resp_status r, xtext = [], send_flag = True\<rparr>"
  have start: "xhr_run (\<lambda>y l. l @ [y]) xhr_new (XOpen # XSend # net_events res chunks) [] =
        xhr_run (\<lambda>y l. l @ [y]) x3 (map XChunk chunks @ [XEnd]) [xhr_new\<lparr>ready := OPENED\<rparr>, x3]"
    using Reply by (simp add: xhr_new_def x3_def)
  obtain ys where ys: "xhr_run (\<lambda>y l. l @ [y]) x3 (map XChunk chunks @ [XEnd]) [xhr_new\<lparr>ready := OPENED\<rparr>, x3] =
        Some (x3\<lparr>ready := DONE, xtext := xtext x3 @ concat chunks\<rparr>,
              [xhr_new\<lparr>ready := OPENED\<rparr>, x3] @ ys @ [x3\<lparr>ready := DONE, xtext := xtext x3 @ concat chunks\<rparr>])"
      and loading: "\<forall>y \<in> set ys. ready y = LOADING"
    using xhr_run_chunks_trace [where x = x3 and cs = chunks and l = "[xhr_new\<lparr>ready := OPENED\<rparr>, x3]"]
    by (auto simp: x3_def)
  have fin: "x3\<lparr>ready := DONE, xtext := xtext x3 @ concat chunks\<rparr> = xhr_final res"
    using Reply assms by (simp add: x3_def chunking_def)
  have "filter (\<lambda>y. ready y = DONE) ys = []"
    using loading by (auto simp: filter_empty_conv)
  then have filt: "filter (\<lambda>y. ready y = DONE) ([xhr_new\<lparr>ready := OPENED\<rparr>, x3] @ ys @ [xhr_final res]) =
      [xhr_final res]"
    by (simp add: xhr_new_def x3_def)
  have run: "xhr_run (\<lambda>y l. l @ [y]) xhr_new (XOpen # XSend # net_events res chunks) [] =
      Some (xhr_final res, [xhr_new\<lparr>ready := OPENED\<rparr>, x3] @ ys @ [xhr_final res])"
    by (simp only: start ys fin)
  show ?thesis
    by (rule exI [where x = "[xhr_new\<lparr>ready := OPENED\<rparr>, x3] @ ys @ [xhr_final res]"])
      (rule conjI [OF run filt])
qed

theorem xhr_session_done_once_witness:
  "\<exists>fs. xhr_run (\<lambda>y l. l @ [y]) xhr_new
          (XOpen # XSend # net_events (Reply \<lparr>resp_status = 200, resp_status_text = ''OK'',
             resp_ctype = ''application/json'', resp_body = ''[1]''\<rparr>) [''['', ''1]'']) [] =
        Some (xhr_final (Reply \<lparr>resp_status = 200, resp_status_text = ''OK'',
             resp_ctype = ''application/json'', resp_body = ''[1]''\<rparr>), fs) \<and>
      filter (\<lambda>y. ready y = DONE) fs =
        [xhr_final (Reply \<lparr>resp_status = 200, resp_status_text = ''OK'',
             resp_ctype = ''application/json'', resp_body = ''[1]''\<rparr>)]"
  by (rule xhr_session_done_once) (simp add: chunking_def)

end
