(* ===== verification/JQuery.thy ===== *)
theory JQuery
  imports Fetch
begin

text \<open>
  The parts of jQuery 3 the scripts call, as library behaviour (not code of the
  repository).  \<open>$.get(url)\<close> issues the request and settles its jqXHR once:
  it is a success for a status in [200, 300) and for 304; the data of a success is
  \<open>undefined\<close> for 204 and 304, and otherwise the body converted by the type
  jQuery guesses from the Content-Type header: a header containing the word
  \<open>json\<close> (the regular expression \<open>/\bjson\b/\<close>) makes the body go through
  \<open>JSON.parse\<close>, whose failure turns the success into a \<open>parsererror\<close>
  failure; any other type keeps the body as a string.  A transport failure is a
  failure with status 0.  \<open>.done(f)\<close> and \<open>.fail(g)\<close> register callbacks on the
  same jqXHR, so \<open>g\<close> runs for a failed request and never for an exception thrown
  by \<open>f\<close>: such an exception escapes the XMLHttpRequest event that delivered the
  response and is reported as uncaught.  The setters \<open>.text(v)\<close> and
  \<open>.attr("src", v)\<close> with \<open>v = undefined\<close> are getters and change nothing
  (jQuery's \<open>access\<close>); \<open>.attr\<close> with \<open>null\<close> removes the attribute.  An XML
  or script Content-Type, which jQuery would parse or execute, is not modelled:
  none of the APIs the scripts call serves one.
\<close>

subsection \<open>The request\<close>

definition word_char :: "char \<Rightarrow> bool" where
  "word_char c \<longleftrightarrow>
     is_digit c \<or> (97 \<le> (of_char c :: nat) \<and> (of_char c :: nat) \<le> 122) \<or>
     (65 \<le> (of_char c :: nat) \<and> (of_char c :: nat) \<le> 90) \<or> c = CHR ''_''"

text \<open>\<open>/\bjson\b/.test(ct)\<close>, scanning \<open>ct\<close> with a flag telling whether the
  previous character was a word boundary.\<close>

fun json_word :: "bool \<Rightarrow> string \<Rightarrow> bool" where
  "json_word b [] = False"
| "json_word b (c # cs) =
     ((b \<and> take 4 (c # cs) = ''json'' \<and>
       (case drop 4 (c # cs) of [] \<Rightarrow> True | d # ds \<Rightarrow> \<not> word_char d)) \<or>
      json_word (\<not> word_char c) cs)"

definition jq_success_status :: "nat \<Rightarrow> bool" where
  "jq_success_status s \<longleftrightarrow> 200 \<le> s \<and> s < 300 \<or> s = 304"

text \<open>The converted data, \<open>None\<close> for a \<open>parsererror\<close>.\<close>

definition jq_convert :: "http_response \<Rightarrow> jsval option" where
  "jq_convert r =
     (if json_word True (resp_ctype r) then json_parse (resp_body r) else Some (JStr (resp_body r)))"

text \<open>How a request settles: fulfilled with its data, or failed with the status of
  the jqXHR (0 for a transport failure).\<close>

datatype jq_result = JqDone jsval | JqFail nat

definition jq_get :: "network \<Rightarrow> url \<Rightarrow> jq_result" where
  "jq_get net u =
     (case net u of
        NetFail \<Rightarrow> JqFail 0
      | Reply r \<Rightarrow>
          if \<not> jq_success_status (resp_status r) then JqFail (resp_status r)
          else if resp_status r = 204 \<or> resp_status r = 304 then JqDone JUndef
          else (case jq_convert r of Some v \<Rightarrow> JqDone v | None \<Rightarrow> JqFail (resp_status r)))"

text \<open>The jqXHR object a fail callback receives, as far as the scripts read it.\<close>

definition jq_xhr :: "nat \<Rightarrow> jsval" where
  "jq_xhr st = JObj [(''readyState'', js_int (if st = 0 then 0 else 4)), (''status'', js_int (int st))]"

text \<open>\<open>$.get(u).done(d).fail(f)\<close>: the callback that runs, with an exception it
  throws reported as uncaught.\<close>

definition jq_done_fail ::
  "jq_result \<Rightarrow> (jsval \<Rightarrow> (page, unit) js) \<Rightarrow> (jsval \<Rightarrow> (page, unit) js) \<Rightarrow> page \<Rightarrow> page" where
  "jq_done_fail res d f p =
     (case res of
        JqDone v \<Rightarrow> js_settle (d v) report_uncaught p
      | JqFail st \<Rightarrow> js_settle (f (jq_xhr st)) report_uncaught p)"

subsection \<open>Setters, event registration and the console\<close>

definition jq_text_val :: "elem_id \<Rightarrow> jsval \<Rightarrow> page \<Rightarrow> page" where
  "jq_text_val i v p =
     (case v of JUndef \<Rightarrow> p | JNull \<Rightarrow> jq_text i [] p | _ \<Rightarrow> jq_text i (js_to_string v) p)"

definition jq_attr_src_val :: "elem_id \<Rightarrow> jsval \<Rightarrow> page \<Rightarrow> page" where
  "jq_attr_src_val i v p =
     (case v of
        JUndef \<Rightarrow> p
      | JNull \<Rightarrow> if i \<in> set (ids p) then p\<lparr>img_src := (img_src p)(i := None)\<rparr> else p
      | _ \<Rightarrow> jq_attr_src i (js_to_string v) p)"

text \<open>\<open>$("#" + i).click(f)\<close> adds \<open>f\<close> to the listeners when the element exists.\<close>

definition jq_click :: "page \<Rightarrow> elem_id \<Rightarrow> 'b \<Rightarrow> ('b list, unit) js" where
  "jq_click p i b = js_modify (\<lambda>ls. if i \<in> set (ids p) then ls @ [b] else ls)"

subsection \<open>Lemmas\<close>

lemma jq_get_NetFail [simp]: "net u = NetFail \<Longrightarrow> jq_get net u = JqFail 0"
  by (simp add: jq_get_def)

lemma jq_get_Reply:
  "net u = Reply r \<Longrightarrow>
     jq_get net u =
       (if \<not> jq_success_status (resp_status r) then JqFail (resp_status r)
        else if resp_status r = 204 \<or> resp_status r = 304 then JqDone JUndef
        else (case jq_convert r of Some v \<Rightarrow> JqDone v | None \<Rightarrow> JqFail (resp_status r)))"
  by (simp add: jq_get_def)

lemma jq_xhr_string [simp]: "js_to_string (jq_xhr st) = ''[object Object]''"
  by (simp add: jq_xhr_def)

lemma jq_done_fail_simps [simp]:
  "jq_done_fail (JqDone v) d f p = js_settle (d v) report_uncaught p"
  "jq_done_fail (JqFail st) d f p = js_settle (f (jq_xhr st)) report_uncaught p"
  by (simp_all add: jq_done_fail_def)

text \<open>The content types the quote and dog APIs send select JSON.\<close>

lemma json_word_application_json [simp]:
  "json_word True ''application/json''"
  "json_word True (''application/json;'' @ rest)"
  by (simp_all add: word_char_def is_digit_def)

end
