(* ===== verification/Adapter.thy ===== *)
theory Adapter
  imports Fetch
begin

text \<open>
  The contract the specification states for every transport (spec section 4.1, the
  "Request Lifecycle Adapter"): \<open>issue(url)\<close> settles once, with a
  SuccessResult carrying the status and the parsed body for a status in
  [200, 299] whose body is JSON, or a FailureResult classified as NetworkError (the
  transport failed), HttpError (with the status as its detail) or ParseError.  No
  code of the repository implements this interface; it is the abstract
  specification the demos are compared with.  A demo refines it when its effect on
  the page depends on the network only through the outcome \<open>issue\<close> gives.
\<close>

datatype failure_kind = NetworkError | HttpError | ParseError

datatype outcome = Success nat jsval | Failure failure_kind string

definition issue :: "net_result \<Rightarrow> outcome" where
  "issue res =
     (case res of
        NetFail \<Rightarrow> Failure NetworkError []
      | Reply r \<Rightarrow>
          if resp_status r < 200 \<or> 299 < resp_status r
          then Failure HttpError (nat_str (resp_status r))
          else (case json_parse (resp_body r) of
                  None \<Rightarrow> Failure ParseError []
                | Some v \<Rightarrow> Success (resp_status r) v))"

subsection \<open>Lemmas\<close>

lemma issue_NetFail [simp]: "issue NetFail = Failure NetworkError []"
  by (simp add: issue_def)

lemma issue_Reply_ok:
  "response_ok r \<Longrightarrow> issue (Reply r) =
     (case json_parse (resp_body r) of None \<Rightarrow> Failure ParseError [] | Some v \<Rightarrow> Success (resp_status r) v)"
  by (simp add: issue_def response_ok_def not_less)

lemma issue_Reply_not_ok:
  "\<not> response_ok r \<Longrightarrow> issue (Reply r) = Failure HttpError (nat_str (resp_status r))"
  by (auto simp: issue_def response_ok_def)

text \<open>The outcome of a reply is never a NetworkError, and a transport failure's
  is: the first thing a demo has to tell apart.\<close>

lemma issue_Reply_not_network: "issue (Reply r) \<noteq> Failure NetworkError d"
  by (simp add: issue_def split: option.splits)

end
