(* ===== verification/RonSwanson.thy ===== *)
theory RonSwanson
  imports Axios Xhr JQuery
begin

text \<open>
  \<open>src/JS/AJAX/Axios/ron-swanson.js\<close>: four buttons that fetch the same quote
  list from \<open>quotes_url\<close>, each through another transport, and show its first
  quote in \<open>#quote\<close>.  The script's globals are the five element references it
  looks up when it loads (lines 1-5); it then registers the four click handlers in
  source order (lines 8, 22, 33, 58), and a registration on a missing button throws
  and ends the script, so the later ones never happen.  The script declares
  \<open>function handleErrors\<close> twice (lines 45 and 67); hoisting binds the name to the
  second one for the whole script, so the axios chain's \<open>.catch(handleErrors)\<close>
  runs the fetch variant.  The functions are dispatched through their hoisted
  binding (\<open>call_handle_errors (hoist ron_decls ''handleErrors'')\<close>), so the model
  shows which declaration runs.  This theory holds the globals, the registration,
  the declarations and the fetch button; the other transports are added by the
  theories that model their libraries.
\<close>

definition quotes_url :: url where
  "quotes_url = ''https://ron-swanson-quotes.herokuapp.com/v2/quotes''"

subsection \<open>Globals and listener registration\<close>

record ron_globals =
  xhr_btn :: "elem_id option"
  fetch_btn :: "elem_id option"
  jquery_btn :: "elem_id option"
  axios_btn :: "elem_id option"
  quote_text :: "elem_id option"

definition ron_globals_of :: "page \<Rightarrow> ron_globals" where
  "ron_globals_of p =
     \<lparr>xhr_btn = query_id p ''xhr'', fetch_btn = query_id p ''fetch'',
      jquery_btn = query_id p ''jquery'', axios_btn = query_id p ''axios'',
      quote_text = query_id p ''quote''\<rparr>"

datatype ron_button = XhrButton | JqueryButton | AxiosButton | FetchButton

text \<open>The four registration statements: \<open>xhr.addEventListener\<close> (line 8),
  \<open>$("#jquery").click\<close> (line 22), \<open>axiosBtn.addEventListener\<close> (line 33) and
  \<open>fetchBtn.addEventListener\<close> (line 58).  Each handler's body is modelled by
  its own definition below; here only the registration matters.\<close>

definition register_xhr :: "ron_globals \<Rightarrow> (ron_button list, unit) js" where
  "register_xhr g = add_listener (xhr_btn g) XhrButton"

definition register_jquery :: "page \<Rightarrow> (ron_button list, unit) js" where
  "register_jquery p = jq_click p ''jquery'' JqueryButton"

definition register_axios :: "ron_globals \<Rightarrow> (ron_button list, unit) js" where
  "register_axios g = add_listener (axios_btn g) AxiosButton"

definition register_fetch :: "ron_globals \<Rightarrow> (ron_button list, unit) js" where
  "register_fetch g = add_listener (fetch_btn g) FetchButton"

text \<open>The script's top-level statements run in source order, and an exception in
  one ends the script.\<close>

definition ron_register :: "page \<Rightarrow> ron_globals \<Rightarrow> (ron_button list, unit) js" where
  "ron_register p g =
     js_bind (register_xhr g) (\<lambda>_.
     js_bind (register_jquery p) (\<lambda>_.
     js_bind (register_axios g) (\<lambda>_.
     register_fetch g)))"

text \<open>The buttons that have a click handler once the script has run.\<close>

definition ron_listeners :: "page \<Rightarrow> ron_button list" where
  "ron_listeners p = snd (ron_register p (ron_globals_of p) [])"

subsection \<open>The function declarations\<close>

datatype ron_fn =
    SendRequest | AddQuote | HandleErrorsAxios | HandleErrorsFetch
  | ParseJSON | UpdateQuote | DisplayErrors

definition ron_decls :: "(string \<times> ron_fn) list" where
  "ron_decls =
     [(''sendRequest'', SendRequest), (''addQuote'', AddQuote),
      (''handleErrors'', HandleErrorsAxios), (''handleErrors'', HandleErrorsFetch),
      (''parseJSON'', ParseJSON), (''updateQuote'', UpdateQuote),
      (''displayErrors'', DisplayErrors)]"

text \<open>
  The two bodies declared as \<open>handleErrors\<close>, over any argument with a property
  read \<open>get\<close> and a string conversion \<open>str\<close> (a Response, an AxiosError): the
  first logs a classification and returns \<open>undefined\<close> (\<open>None\<close>); the second
  throws when the argument's \<open>ok\<close> is falsy and returns the argument otherwise.
\<close>

definition handle_errors_axios :: "('a \<Rightarrow> string \<Rightarrow> jsval) \<Rightarrow> ('a \<Rightarrow> string) \<Rightarrow> 'a \<Rightarrow> (page, 'a option) js" where
  "handle_errors_axios get str x =
     js_bind
       (js_modify
          (if js_truthy (get x ''response'') then console_log ''There was a response error''
           else if js_truthy (get x ''request'') then console_log ''There was a request error''
           else console_log (''Unknown error: '' @ str x)))
       (\<lambda>_. js_return None)"

definition fetch_error :: js_error where
  "fetch_error = Error ''There was an error with the fetch''"

definition handle_errors_fetch :: "('a \<Rightarrow> string \<Rightarrow> jsval) \<Rightarrow> 'a \<Rightarrow> (page, 'a option) js" where
  "handle_errors_fetch get x =
     (if \<not> js_truthy (get x ''ok'') then js_throw fetch_error else js_return (Some x))"

fun call_handle_errors ::
  "ron_fn option \<Rightarrow> ('a \<Rightarrow> string \<Rightarrow> jsval) \<Rightarrow> ('a \<Rightarrow> string) \<Rightarrow> 'a \<Rightarrow> (page, 'a option) js" where
  "call_handle_errors (Some HandleErrorsAxios) get str x = handle_errors_axios get str x"
| "call_handle_errors (Some HandleErrorsFetch) get str x = handle_errors_fetch get x"
| "call_handle_errors f get str x = js_throw (TypeError ''handleErrors is not a function'')"

subsection \<open>The XHR button\<close>

text \<open>The click handler of lines 8-19: a new XMLHttpRequest whose
  \<open>onreadystatechange\<close> (lines 11-16) parses \<open>XHR.response\<close> and writes its
  element 0 as markup into \<open>#quote\<close> once readyState is 4 and the status 200.
  An exception in the handler is reported as uncaught by the event loop.  The click
  itself runs \<open>open\<close> and \<open>send\<close>; the network then delivers its events, with the
  body split into \<open>chunks\<close>.\<close>

definition ron_xhr_handler :: "ron_globals \<Rightarrow> xhr \<Rightarrow> page \<Rightarrow> page" where
  "ron_xhr_handler g x p =
     (if ready_num (ready x) = 4 \<and> xstatus x = 200 then
        js_settle
          (js_bind (js_of_sum (sum_bind (JSON_parse (xhr_response x)) (\<lambda>v. get_index v 0)))
             (\<lambda>quote. set_inner_html (quote_text g) (legacy_null_to_empty quote)))
          report_uncaught p
      else p)"

definition ron_xhr_click :: "ron_globals \<Rightarrow> network \<Rightarrow> string list \<Rightarrow> page \<Rightarrow> page option" where
  "ron_xhr_click g net chunks p =
     map_option snd
       (xhr_run (ron_xhr_handler g) xhr_new (XOpen # XSend # net_events (net quotes_url) chunks) p)"

subsection \<open>The jQuery button\<close>

text \<open>The click handler of lines 22-30: \<open>$.get\<close> with a done callback that
  shows \<open>data[0]\<close> through \<open>.text\<close> and a fail callback that logs
  \<open>"Error: " + error\<close>, where \<open>error\<close> is the jqXHR.\<close>

definition ron_jq_click :: "network \<Rightarrow> page \<Rightarrow> page" where
  "ron_jq_click net p =
     jq_done_fail (jq_get net quotes_url)
       (\<lambda>data. js_bind (js_of_sum (get_index data 0)) (\<lambda>q. js_modify (jq_text_val ''quote'' q)))
       (\<lambda>error. js_modify (console_log (''Error: '' @ js_to_string error)))
       p"

subsection \<open>The fetch button\<close>

text \<open>\<open>parseJSON(response)\<close> calls \<open>response.json()\<close>; on \<open>undefined\<close> the
  method read throws.\<close>

definition parse_json :: "http_response option \<Rightarrow> (page, jsval) js" where
  "parse_json res =
     (case res of None \<Rightarrow> js_throw (read_error ''undefined'' ''json'')
                | Some r \<Rightarrow> js_bind (response_json r) (\<lambda>parsed. js_return parsed))"

definition update_quote :: "ron_globals \<Rightarrow> jsval \<Rightarrow> (page, unit) js" where
  "update_quote g data = set_inner_text (quote_text g) (legacy_null_to_empty data)"

definition display_errors :: "js_error \<Rightarrow> (page, unit) js" where
  "display_errors e = js_modify (console_log (''Error: '' @ error_to_string e))"

definition ron_fetch_click :: "ron_globals \<Rightarrow> network \<Rightarrow> (page, unit) js" where
  "ron_fetch_click g net =
     js_catch
       (js_bind
          (js_bind
             (js_bind (fetch net quotes_url)
                (call_handle_errors (hoist ron_decls ''handleErrors'') response_prop
                   (\<lambda>_. ''[object Response]'')))
             parse_json)
          (update_quote g))
       display_errors"

subsection \<open>The axios button\<close>

text \<open>\<open>addQuote(response)\<close> (lines 41-43) writes \<open>response.data[0]\<close> as markup;
  \<open>sendRequest\<close> (lines 35-39) chains it after \<open>axios.get\<close> and passes the error
  of either to whatever \<open>handleErrors\<close> is bound to.  The value the catch handler
  returns fulfils a promise nobody reads, so it is dropped.\<close>

definition add_quote :: "ron_globals \<Rightarrow> jsval \<Rightarrow> (page, unit) js" where
  "add_quote g response =
     js_bind (js_of_sum (sum_bind (get_prop response ''data'') (\<lambda>d. get_index d 0)))
       (\<lambda>q. set_inner_html (quote_text g) (legacy_null_to_empty q))"

definition send_request :: "ron_globals \<Rightarrow> network \<Rightarrow> (page, unit) js" where
  "send_request g net =
     js_catch (js_bind (axios_get net quotes_url) (add_quote g))
       (\<lambda>e. js_bind (call_handle_errors (hoist ron_decls ''handleErrors'') error_prop error_to_string e)
               (\<lambda>_. js_return ()))"

subsection \<open>Lemmas\<close>

lemma ron_handleErrors_binding [simp]: "hoist ron_decls ''handleErrors'' = Some HandleErrorsFetch"
  by (simp add: hoist_def ron_decls_def)

lemma handle_errors_fetch_response [simp]:
  "handle_errors_fetch response_prop r =
     (if response_ok r then js_return (Some r) else js_throw fetch_error)"
  by (simp add: handle_errors_fetch_def)

lemma handle_errors_fetch_error [simp]:
  "handle_errors_fetch error_prop e = js_throw fetch_error"
  by (cases e) (simp_all add: handle_errors_fetch_def)

lemma ron_xhr_handler_waits: "waits_for_done (ron_xhr_handler g)"
  by (simp add: waits_for_done_def ron_xhr_handler_def)

lemma ron_xhr_click_session:
  "chunking (net quotes_url) chunks \<Longrightarrow>
     ron_xhr_click g net chunks p = Some (ron_xhr_handler g (xhr_final (net quotes_url)) p)"
  by (simp only: ron_xhr_click_def xhr_run_session [OF ron_xhr_handler_waits] option.map snd_conv)

lemmas ron_axios_defs = send_request_def axios_get_def add_quote_def set_inner_html_def

lemmas ron_fetch_defs =
  ron_fetch_click_def display_errors_def fetch_error_def fetch_failed_def error_to_string_def
  parse_json_def update_quote_def set_inner_text_def set_error_def json_syntax_error_def

subsection \<open>Properties of the fetch button\<close>

text \<open>
  C1: one click of the fetch button, for every network and page: a transport
  failure, a non-2xx status and a body that is not JSON each log one line through
  \<open>displayErrors\<close> and leave the page otherwise unchanged; a 2xx JSON body is
  shown as text in \<open>#quote\<close> as \<open>String(data)\<close>, the whole parsed value
  (\<open>null\<close> as the empty string);
  without a \<open>#quote\<close> element the assignment throws and that error is logged.
  No branch leaves an unhandled rejection.
\<close>

theorem ron_fetch_click_effect:
  "js_settle (ron_fetch_click g net) report_unhandled p =
     (case net quotes_url of
        NetFail \<Rightarrow> console_log ''Error: TypeError: Failed to fetch'' p
      | Reply r \<Rightarrow>
          if \<not> response_ok r then console_log ''Error: Error: There was an error with the fetch'' p
          else
            (case json_parse (resp_body r) of
               None \<Rightarrow> console_log ''Error: SyntaxError: Unexpected token in JSON'' p
             | Some v \<Rightarrow>
                 (case quote_text g of
                    Some q \<Rightarrow> p\<lparr>shown := (shown p)(q \<mapsto> Text (legacy_null_to_empty v))\<rparr>
                  | None \<Rightarrow>
                      console_log (''Error: '' @ error_to_string (set_error ''innerText'')) p)))"
proof (cases "net quotes_url")
  case NetFail
  then show ?thesis
    by (simp add: ron_fetch_defs)
next
  case (Reply r)
  then show ?thesis
    by (simp add: ron_fetch_defs split: option.splits)
qed

subsection \<open>Properties of the axios button\<close>

text \<open>
  C2: one click of the axios button, for every network and page.  A response with a
  2xx status whose \<open>data[0]\<close> can be read is written as markup into
  \<open>#quote\<close>.  Every other path (a transport failure, a non-2xx status, a
  \<open>data\<close> of \<open>null\<close>, a missing \<open>#quote\<close>) reaches \<open>.catch(handleErrors)\<close>,
  which is bound to the second declaration: it reads \<open>error.ok\<close>, finds it
  undefined and throws again.  So every failure ends in the same unhandled
  rejection "There was an error with the fetch", and the response/request
  classification of the first \<open>handleErrors\<close> (lines 45-55) never runs: nothing
  is logged.
\<close>

theorem ron_axios_click_effect:
  "js_settle (send_request g net) report_unhandled p =
     (case net quotes_url of
        Reply r \<Rightarrow>
          if axios_valid_status (resp_status r) then
            (case (get_index (axios_data (resp_body r)) 0, quote_text g) of
               (Inr v, Some q) \<Rightarrow> p\<lparr>shown := (shown p)(q \<mapsto> Html (legacy_null_to_empty v))\<rparr>
             | _ \<Rightarrow> report_unhandled fetch_error p)
          else report_unhandled fetch_error p
      | NetFail \<Rightarrow> report_unhandled fetch_error p)"
  by (auto simp: ron_axios_defs split: net_result.splits sum.splits option.splits)

text \<open>
  C3: a 2xx response whose body is not JSON is not an error for the axios button:
  axios keeps the body as a string, and \<open>data[0]\<close> is its first character,
  which is shown in \<open>#quote\<close>.
\<close>

theorem ron_axios_non_json_first_char:
  assumes "net quotes_url = Reply r" and "axios_valid_status (resp_status r)"
    and "json_parse (resp_body r) = None" and "resp_body r = c # cs"
    and "quote_text g = Some q"
  shows "shown (js_settle (send_request g net) report_unhandled p) q = Some (Html [c])"
  using assms by (simp add: ron_axios_defs axios_data_def)

theorem ron_axios_non_json_first_char_witness:
  "shown (js_settle (send_request \<lparr>xhr_btn = Some ''xhr'', fetch_btn = Some ''fetch'',
            jquery_btn = Some ''jquery'', axios_btn = Some ''axios'', quote_text = Some ''quote''\<rparr>
          (\<lambda>_. Reply \<lparr>resp_status = 200, resp_status_text = ''OK'', resp_ctype = ''text/plain'',
                      resp_body = ''not-json''\<rparr>)) report_unhandled
          \<lparr>ids = [''quote''], shown = Map.empty, img_src = Map.empty, console = [], reported = []\<rparr>)
     ''quote'' = Some (Html ''n'')"
proof -
  have nj: "json_parse ''not-json'' = None"
    by code_simp
  show ?thesis
    by (rule ron_axios_non_json_first_char [where c = "CHR ''n''" and cs = "''ot-json''"])
      (simp, simp add: axios_valid_status_def, simp add: nj, simp, simp)
qed

subsection \<open>Properties of the jQuery button\<close>

text \<open>
  C5: one click of the jQuery button, for every network and page.  A transport
  failure, a status outside [200, 300) other than 304, and a JSON body that does not
  parse all run the fail callback, which logs the same line
  "Error: [object Object]" whatever went wrong.  A 204 or 304 response fulfils with
  \<open>undefined\<close>, and \<open>data[0]\<close> throws an uncaught TypeError.  Otherwise
  \<open>data[0]\<close> is shown as text in \<open>#quote\<close> (nothing changes when it is
  \<open>undefined\<close> or \<open>#quote\<close> is missing), and a \<open>data\<close> without element 0
  (\<open>null\<close>) throws an uncaught TypeError that the fail callback never sees.
\<close>

theorem ron_jq_click_effect:
  "ron_jq_click net p =
     (case net quotes_url of
        NetFail \<Rightarrow> console_log ''Error: [object Object]'' p
      | Reply r \<Rightarrow>
          if \<not> jq_success_status (resp_status r) then console_log ''Error: [object Object]'' p
          else if resp_status r = 204 \<or> resp_status r = 304 then
            report_uncaught (read_error ''undefined'' ''0'') p
          else
            (case jq_convert r of
               None \<Rightarrow> console_log ''Error: [object Object]'' p
             | Some v \<Rightarrow>
                 (case get_index v 0 of
                    Inl e \<Rightarrow> report_uncaught e p
                  | Inr q \<Rightarrow> jq_text_val ''quote'' q p)))"
  by (simp add: ron_jq_click_def jq_get_def split: net_result.splits option.splits sum.splits)

subsection \<open>Properties of the XHR button\<close>

text \<open>
  C4: one click of the XHR button, however the network splits the body into chunks.
  The handler acts once, on readyState 4.  A status other than exactly 200 and a
  network error (status 0) are ignored silently: nothing is shown, logged or
  reported.  A body that is not JSON, and a parsed value with no element 0 (such as
  \<open>null\<close>), throw inside the handler, and the browser reports the exception as
  uncaught.  Otherwise element 0 is written as markup into \<open>#quote\<close>, and a
  missing \<open>#quote\<close> throws, which is reported in the same way.
\<close>

theorem ron_xhr_click_effect:
  assumes "chunking (net quotes_url) chunks"
  shows "ron_xhr_click g net chunks p =
     Some (case net quotes_url of
        NetFail \<Rightarrow> p
      | Reply r \<Rightarrow>
          if resp_status r \<noteq> 200 then p
          else (case json_parse (resp_body r) of
                  None \<Rightarrow> report_uncaught json_syntax_error p
                | Some v \<Rightarrow>
                    (case get_index v 0 of
                       Inl e \<Rightarrow> report_uncaught e p
                     | Inr q \<Rightarrow>
                         (case quote_text g of
                            Some i \<Rightarrow> p\<lparr>shown := (shown p)(i \<mapsto> Html (legacy_null_to_empty q))\<rparr>
                          | None \<Rightarrow> report_uncaught (set_error ''innerHTML'') p))))"
  using assms
  by (auto simp: ron_xhr_click_session ron_xhr_handler_def xhr_response_def JSON_parse_def set_inner_html_def
      split: net_result.splits option.splits sum.splits)

theorem ron_xhr_click_effect_witness:
  "ron_xhr_click \<lparr>xhr_btn = Some ''xhr'', fetch_btn = Some ''fetch'',
       jquery_btn = Some ''jquery'', axios_btn = Some ''axios'', quote_text = Some ''quote''\<rparr>
     (\<lambda>_. Reply \<lparr>resp_status = 200, resp_status_text = ''OK'', resp_ctype = ''application/json'',
                 resp_body = ''[7]''\<rparr>) [''['', ''7]'']
     \<lparr>ids = [''quote''], shown = Map.empty, img_src = Map.empty, console = [], reported = []\<rparr> =
   Some \<lparr>ids = [''quote''], shown = [''quote'' \<mapsto> Html ''7''], img_src = Map.empty, console = [],
         reported = []\<rparr>"
proof -
  have js: "json_parse ''[7]'' = Some (JArr [js_int 7])"
    by code_simp
  show ?thesis
    using ron_xhr_click_effect [where net = "\<lambda>_. Reply \<lparr>resp_status = 200, resp_status_text = ''OK'',
        resp_ctype = ''application/json'', resp_body = ''[7]''\<rparr>" and chunks = "[''['', ''7]'']"]
    by (simp add: chunking_def js)
qed

subsection \<open>Properties of the script as a whole\<close>

text \<open>
  C17: the listeners the script registers when it loads, in source order.  A page
  without \<open>#xhr\<close> gets none, because \<open>xhr.addEventListener\<close> on \<open>null\<close>
  throws and ends the script; the jQuery button is registered only when
  \<open>#jquery\<close> exists but never aborts the script; a page without \<open>#axios\<close>
  stops after the jQuery registration, so its fetch button has no handler either.
\<close>

theorem ron_register_listeners:
  "ron_listeners p =
     (if ''xhr'' \<notin> set (ids p) then []
      else XhrButton # (if ''jquery'' \<in> set (ids p) then [JqueryButton] else []) @
           (if ''axios'' \<notin> set (ids p) then []
            else AxiosButton # (if ''fetch'' \<in> set (ids p) then [FetchButton] else [])))"
  by (simp add: ron_listeners_def ron_register_def register_xhr_def register_jquery_def
      register_axios_def register_fetch_def ron_globals_of_def query_id_def add_listener_def
      jq_click_def js_bind_def js_modify_def js_throw_def)

end
