(* ===== verification/RandomDog.thy ===== *)
theory RandomDog
  imports JQuery
begin

text \<open>
  \<open>src/JS/AJAX/jQuery/RandomDogGenerator/random-dog.js\<close>: a click on \<open>#btn\<close>
  (registered with jQuery's \<open>.click\<close>, lines 1 and 9) asks \<open>dog_url\<close> for a
  random image with \<open>$.get\<close>; the done callback (lines 3-6) logs the data and sets
  the \<open>src\<close> of \<open>#image\<close> to \<open>data.message\<close>; the fail callback (lines 7-9)
  logs a fixed line.
\<close>

definition dog_url :: url where
  "dog_url = ''https://dog.ceo/api/breeds/image/random''"

datatype dog_listener = DogClick

definition dog_register :: "page \<Rightarrow> (dog_listener list, unit) js" where
  "dog_register p = jq_click p ''btn'' DogClick"

definition dog_click :: "network \<Rightarrow> page \<Rightarrow> page" where
  "dog_click net p =
     jq_done_fail (jq_get net dog_url)
       (\<lambda>data. js_bind (js_modify (console_log (console_show data)))
          (\<lambda>_. js_bind (js_of_sum (get_prop data ''message''))
                 (\<lambda>m. js_modify (jq_attr_src_val ''image'' m))))
       (\<lambda>_. js_modify (console_log ''There was an error''))
       p"

subsection \<open>Properties\<close>

text \<open>
  C6: one click, for every network and page.  Every failed request (transport
  failure, a status outside [200, 300) other than 304, a JSON body that does not
  parse) logs "There was an error" and changes nothing else.  A 204 or 304 response
  logs \<open>undefined\<close>, and \<open>data.message\<close> throws an uncaught TypeError.  Otherwise
  the data is logged first and then \<open>data.message\<close> is written to the image
  source; a body served as text is a string, whose \<open>message\<close> is undefined, so
  the image is left as it was.
\<close>

theorem dog_click_effect:
  "dog_click net p =
     (case net dog_url of
        NetFail \<Rightarrow> console_log ''There was an error'' p
      | Reply r \<Rightarrow>
          if \<not> jq_success_status (resp_status r) then console_log ''There was an error'' p
          else if resp_status r = 204 \<or> resp_status r = 304 then
            report_uncaught (read_error ''undefined'' ''message'') (console_log ''undefined'' p)
          else
            (case jq_convert r of
               None \<Rightarrow> console_log ''There was an error'' p
             | Some data \<Rightarrow>
                 (case get_prop data ''message'' of
                    Inl e \<Rightarrow> report_uncaught e (console_log (console_show data) p)
                  | Inr m \<Rightarrow> jq_attr_src_val ''image'' m (console_log (console_show data) p))))"
  by (simp add: dog_click_def jq_get_def console_show_def split: net_result.splits option.splits sum.splits)

text \<open>
  C7: a successful JSON reply \<open>{"message": url, \<dots>}\<close> sets the image source to
  that URL and logs the reply, on a page that has \<open>#image\<close>.
\<close>

theorem dog_click_shows_image:
  assumes "net dog_url = Reply r" and "200 \<le> resp_status r" and "resp_status r < 300"
    and "resp_status r \<noteq> 204" and "json_word True (resp_ctype r)"
    and "json_parse (resp_body r) = Some (JObj kvs)" and "map_of kvs ''message'' = Some (JStr m)"
    and "''image'' \<in> set (ids p)"
  shows "img_src (dog_click net p) ''image'' = Some m \<and>
         console (dog_click net p) = console p @ [json_print (JObj kvs)]"
  using assms
  by (simp add: dog_click_def jq_get_def jq_success_status_def jq_convert_def console_show_def
      jq_attr_src_val_def jq_attr_src_def console_log_def)

theorem dog_click_shows_image_witness:
  \<open>img_src (dog_click (\<lambda>_. Reply \<lparr>resp_status = 200, resp_status_text = ''OK'',
        resp_ctype = ''application/json; charset=utf-8'', resp_body = ''{"message":"d.jpg"}''\<rparr>)
      \<lparr>ids = [''btn'', ''image''], shown = Map.empty, img_src = Map.empty, console = [],
       reported = []\<rparr>) ''image'' = Some ''d.jpg''\<close>
proof -
  have js: \<open>json_parse ''{"message":"d.jpg"}'' = Some (JObj [(''message'', JStr ''d.jpg'')])\<close>
    by code_simp
  show ?thesis
    using dog_click_shows_image [where net = \<open>\<lambda>_. Reply \<lparr>resp_status = 200, resp_status_text = ''OK'',
        resp_ctype = ''application/json; charset=utf-8'', resp_body = ''{"message":"d.jpg"}''\<rparr>\<close>
      and r = \<open>\<lparr>resp_status = 200, resp_status_text = ''OK'',
        resp_ctype = ''application/json; charset=utf-8'', resp_body = ''{"message":"d.jpg"}''\<rparr>\<close>
      and kvs = \<open>[(''message'', JStr ''d.jpg'')]\<close> and m = \<open>''d.jpg''\<close>]
    by (simp add: js word_char_def is_digit_def)
qed

end
