(* ===== verification/PriceChecker.thy ===== *)
theory PriceChecker
  imports Xhr
begin

text \<open>
  \<open>src/JS/AJAX/XHR/Bitcoin-Price-Checker/price-checker.js\<close>: the script looks
  up \<open>#price\<close> and the page's first \<open>button\<close> (lines 1-2) and registers a click
  handler on the button (line 4).  A click opens and sends an XMLHttpRequest for the
  current Bitcoin price (lines 5-15); the \<open>onreadystatechange\<close> handler (lines
  7-12) reads \<open>bpi.USD\<close> of the parsed response once readyState is 4 and the
  status 200, and writes \<open>"$" + rate.rate + " " + rate.code\<close> into \<open>#price\<close>
  as text.
\<close>

definition coindesk_url :: url where
  "coindesk_url = ''https://api.coindesk.com/v1/bpi/currentprice.json''"

record price_globals =
  price_el :: "elem_id option"
  btn_el :: "elem_id option"

text \<open>\<open>document.querySelector("button")\<close> is the first button of the page in
  document order; the page's buttons are given as that list.\<close>

definition price_globals_of :: "page \<Rightarrow> elem_id list \<Rightarrow> price_globals" where
  "price_globals_of p buttons =
     \<lparr>price_el = query_id p ''price'', btn_el = (case buttons of [] \<Rightarrow> None | b # bs \<Rightarrow> Some b)\<rparr>"

datatype price_listener = PriceClick

definition price_register :: "price_globals \<Rightarrow> (price_listener list, unit) js" where
  "price_register g = add_listener (btn_el g) PriceClick"

definition price_handler :: "price_globals \<Rightarrow> xhr \<Rightarrow> page \<Rightarrow> page" where
  "price_handler g x p =
     (if ready_num (ready x) = 4 \<and> xstatus x = 200 then
        js_settle
          (js_bind (js_of_sum (sum_bind (JSON_parse (xhr_response x)) (\<lambda>v. get_path v [''bpi'', ''USD''])))
             (\<lambda>rate. js_bind (js_of_sum (get_prop rate ''rate''))
                (\<lambda>r. js_bind (js_of_sum (get_prop rate ''code''))
                   (\<lambda>c. set_text_content (price_el g) (''$'' @ js_to_string r @ '' '' @ js_to_string c)))))
          report_uncaught p
      else p)"

definition price_click :: "price_globals \<Rightarrow> network \<Rightarrow> string list \<Rightarrow> page \<Rightarrow> page option" where
  "price_click g net chunks p =
     map_option snd
       (xhr_run (price_handler g) xhr_new (XOpen # XSend # net_events (net coindesk_url) chunks) p)"

subsection \<open>Lemmas\<close>

lemma price_handler_waits: "waits_for_done (price_handler g)"
  unfolding price_handler_def by (rule waits_for_done_guard)

lemma price_click_session:
  "chunking (net coindesk_url) chunks \<Longrightarrow>
     price_click g net chunks p = Some (price_handler g (xhr_final (net coindesk_url)) p)"
  by (simp only: price_click_def xhr_run_session [OF price_handler_waits] option.map snd_conv)

subsection \<open>Properties\<close>

text \<open>
  C8: a click, however the body is split into chunks, on a 200 reply whose JSON has
  \<open>bpi.USD.rate\<close> and \<open>bpi.USD.code\<close> as strings: \<open>#price\<close> shows
  "$", the rate, a space and the code, and nothing else changes.
\<close>

theorem price_click_shows_rate:
  assumes "chunking (net coindesk_url) chunks" and "net coindesk_url = Reply r"
    and "resp_status r = 200" and "json_parse (resp_body r) = Some v"
    and "get_path v [''bpi'', ''USD''] = Inr (JObj kvs)"
    and "map_of kvs ''rate'' = Some (JStr rt)" and "map_of kvs ''code'' = Some (JStr cd)"
    and "price_el g = Some i"
  shows "price_click g net chunks p = Some (p\<lparr>shown := (shown p)(i \<mapsto> Text (''$'' @ rt @ '' '' @ cd))\<rparr>)"
  using assms
  by (simp add: price_click_session price_handler_def xhr_response_def JSON_parse_def set_text_content_def)

theorem price_click_shows_rate_witness:
  \<open>price_click \<lparr>price_el = Some ''price'', btn_el = Some ''b''\<rparr>
     (\<lambda>_. Reply \<lparr>resp_status = 200, resp_status_text = ''OK'', resp_ctype = ''application/json'',
                 resp_body = ''{"bpi":{"USD":{"code":"USD","rate":"6,485.37"}}}''\<rparr>)
     [''{"bpi":{"USD":'', ''{"code":"USD","rate":"6,485.37"}}}'']
     \<lparr>ids = [''price''], shown = Map.empty, img_src = Map.empty, console = [], reported = []\<rparr> =
   Some \<lparr>ids = [''price''], shown = [''price'' \<mapsto> Text ''$6,485.37 USD''], img_src = Map.empty,
         console = [], reported = []\<rparr>\<close>
proof -
  have js: \<open>json_parse ''{"bpi":{"USD":{"code":"USD","rate":"6,485.37"}}}'' =
      Some (JObj [(''bpi'', JObj [(''USD'', JObj [(''code'', JStr ''USD''), (''rate'', JStr ''6,485.37'')])])])\<close>
    by code_simp
  let ?r = \<open>\<lparr>resp_status = 200, resp_status_text = ''OK'', resp_ctype = ''application/json'',
             resp_body = ''{"bpi":{"USD":{"code":"USD","rate":"6,485.37"}}}''\<rparr>\<close>
  let ?kvs = \<open>[(''code'', JStr ''USD''), (''rate'', JStr ''6,485.37'')]\<close>
  show ?thesis
    using price_click_shows_rate [where net = \<open>\<lambda>_. Reply ?r\<close> and r = ?r
        and chunks = \<open>[''{"bpi":{"USD":'', ''{"code":"USD","rate":"6,485.37"}}}'']\<close>
        and v = \<open>JObj [(''bpi'', JObj [(''USD'', JObj ?kvs)])]\<close> and kvs = ?kvs
        and rt = \<open>''6,485.37''\<close> and cd = \<open>''USD''\<close> and i = \<open>''price''\<close>
        and g = \<open>\<lparr>price_el = Some ''price'', btn_el = Some ''b''\<rparr>\<close>
        and p = \<open>\<lparr>ids = [''price''], shown = Map.empty, img_src = Map.empty, console = [], reported = []\<rparr>\<close>]
    by (simp add: chunking_def js)
qed

text \<open>
  C9: a network error and every status other than 200 leave the page exactly as it
  was: nothing is shown, logged or reported.
\<close>

theorem price_click_silent_failure:
  assumes "chunking (net coindesk_url) chunks"
    and "case net coindesk_url of NetFail \<Rightarrow> True | Reply r \<Rightarrow> resp_status r \<noteq> 200"
  shows "price_click g net chunks p = Some p"
  using assms
  by (simp add: price_click_session price_handler_def split: net_result.splits)

theorem price_click_silent_failure_witness:
  "price_click \<lparr>price_el = Some ''price'', btn_el = Some ''b''\<rparr> (\<lambda>_. NetFail) []
     \<lparr>ids = [''price''], shown = Map.empty, img_src = Map.empty, console = [], reported = []\<rparr> =
   Some \<lparr>ids = [''price''], shown = Map.empty, img_src = Map.empty, console = [], reported = []\<rparr>"
  by (rule price_click_silent_failure) (simp_all add: chunking_def)

end
