(* ===== verification/RandomUser.thy ===== *)
theory RandomUser
  imports Fetch
begin

text \<open>
  \<open>src/JS/AJAX/Fetch/RandomUser/random-user.js\<close>: the script looks up five
  display elements and \<open>#btn\<close> (lines 1-7) and registers a click handler on the
  button (line 9).  A click assigns the implicit global \<open>url\<close> (line 10, no
  observable effect in a classic script) and runs the fetch chain of lines 11-15:
  \<open>handleErrors\<close> (lines 34-39) throws \<open>Error(res.status)\<close> for a response
  that is not ok, \<open>parseJSON\<close> (lines 18-22) takes \<open>results[0]\<close> of the parsed
  body, \<open>updateProfile\<close> (lines 25-32) writes five fields one after the other, and
  \<open>displayErrors\<close> (lines 41-44) logs two lines.  Line 28 writes through
  \<open>avatar\<close>, which the script never declares (it declares \<open>avatarImage\<close>): the
  name resolves through the window's named access to the element with id
  \<open>avatar\<close>, and without one it throws a ReferenceError after the full name has
  been written.  The console shows an Error object by its string conversion.
\<close>

definition randomuser_url :: url where
  "randomuser_url = ''https://randomuser.me/api/''"

record user_globals =
  full_name_display :: "elem_id option"
  avatar_image :: "elem_id option"
  username_el :: "elem_id option"
  email_el :: "elem_id option"
  city_el :: "elem_id option"
  user_btn :: "elem_id option"

definition user_globals_of :: "page \<Rightarrow> user_globals" where
  "user_globals_of p =
     \<lparr>full_name_display = query_id p ''fullname'', avatar_image = query_id p ''avatar'',
      username_el = query_id p ''username'', email_el = query_id p ''email'',
      city_el = query_id p ''city'', user_btn = query_id p ''btn''\<rparr>"

datatype user_listener = UserClick

definition user_register :: "user_globals \<Rightarrow> (user_listener list, unit) js" where
  "user_register g = add_listener (user_btn g) UserClick"

definition user_parse_json :: "http_response \<Rightarrow> (page, jsval) js" where
  "user_parse_json res =
     js_bind (response_json res)
       (\<lambda>parsedData. js_of_sum (sum_bind (get_prop parsedData ''results'') (\<lambda>rs. get_index rs 0)))"

text \<open>One field write \<open>el.innerText = data.k1.k2\<close>: the value is read first, then
  assigned.\<close>

definition write_field :: "elem_id option \<Rightarrow> jsval \<Rightarrow> string list \<Rightarrow> (page, unit) js" where
  "write_field el data path =
     js_bind (js_of_sum (get_path data path)) (\<lambda>v. set_inner_text el (legacy_null_to_empty v))"

definition update_profile :: "user_globals \<Rightarrow> jsval \<Rightarrow> (page, unit) js" where
  "update_profile g data =
     js_bind (js_of_sum (sum_bind (get_path data [''name'', ''first''])
                (\<lambda>first. sum_bind (get_path data [''name'', ''last''])
                   (\<lambda>last. Inr (js_to_string first @ '' '' @ js_to_string last)))))
       (\<lambda>fullName.
     js_bind (set_inner_text (full_name_display g) fullName) (\<lambda>_.
     js_bind (named_element ''avatar'') (\<lambda>avatar.
     js_bind (js_of_sum (get_path data [''picture'', ''medium''])) (\<lambda>medium.
     js_bind (set_src (Some avatar) (js_to_string medium)) (\<lambda>_.
     js_bind (write_field (username_el g) data [''login'', ''username'']) (\<lambda>_.
     js_bind (write_field (email_el g) data [''email'']) (\<lambda>_.
     write_field (city_el g) data [''location'', ''city''])))))))"

definition user_handle_errors :: "http_response \<Rightarrow> (page, http_response) js" where
  "user_handle_errors res =
     (if \<not> js_truthy (response_prop res ''ok'')
      then js_throw (Error (js_to_string (response_prop res ''status'')))
      else js_return res)"

definition user_display_errors :: "js_error \<Rightarrow> (page, unit) js" where
  "user_display_errors error =
     js_modify (\<lambda>p. console_log (error_to_string error) (console_log ''Inside displayErrors'' p))"

definition user_click :: "user_globals \<Rightarrow> network \<Rightarrow> (page, unit) js" where
  "user_click g net =
     js_catch
       (js_bind (js_bind (js_bind (fetch net randomuser_url) user_handle_errors) user_parse_json)
          (update_profile g))
       user_display_errors"

subsection \<open>Lemmas\<close>

lemmas user_defs = user_click_def user_handle_errors_def user_parse_json_def update_profile_def
  write_field_def user_display_errors_def

subsection \<open>Properties\<close>

text \<open>
  C10: a click on a page that has all five display elements, with an ok response
  whose body is any JSON object (the API's \<open>info\<close> and other keys included)
  with a non-empty \<open>results\<close> array whose \<open>results[0]\<close> has string fields \<open>name.first\<close>, \<open>name.last\<close>,
  \<open>picture.medium\<close>, \<open>login.username\<close>, \<open>email\<close> and
  \<open>location.city\<close>: the full name, user name, email and city are shown as text,
  the avatar's source is set, and nothing is logged or reported.
\<close>

theorem user_click_success:
  assumes "net randomuser_url = Reply r" and "response_ok r"
    and "json_parse (resp_body r) = Some (JObj kvs)" and "map_of kvs ''results'' = Some (JArr (d # ds))"
    and "get_path d [''name'', ''first''] = Inr (JStr f)" and "get_path d [''name'', ''last''] = Inr (JStr l)"
    and "get_path d [''picture'', ''medium''] = Inr (JStr m)"
    and "get_path d [''login'', ''username''] = Inr (JStr u)"
    and "get_path d [''email''] = Inr (JStr e)" and "get_path d [''location'', ''city''] = Inr (JStr c)"
    and "user_globals_of p = g" and "set [''fullname'', ''avatar'', ''username'', ''email'', ''city''] \<subseteq> set (ids p)"
  shows "js_settle (user_click g net) report_unhandled p =
           p\<lparr>shown := (shown p)(''fullname'' \<mapsto> Text (f @ '' '' @ l), ''username'' \<mapsto> Text u,
                                ''email'' \<mapsto> Text e, ''city'' \<mapsto> Text c),
             img_src := (img_src p)(''avatar'' \<mapsto> m)\<rparr>"
proof -
  have g: "full_name_display g = Some ''fullname''" "username_el g = Some ''username''"
      "email_el g = Some ''email''" "city_el g = Some ''city''"
    using assms(11,12) by (auto simp: user_globals_of_def)
  show ?thesis
    using assms(1-10,12) g by (simp add: user_defs js_modify_apply set_inner_text_def set_src_def)
qed

theorem user_click_success_witness:
  \<open>js_settle (user_click (user_globals_of \<lparr>ids = [''fullname'', ''avatar'', ''username'', ''email'', ''city'', ''btn''],
        shown = Map.empty, img_src = Map.empty, console = [], reported = []\<rparr>)
      (\<lambda>_. Reply \<lparr>resp_status = 200, resp_status_text = ''OK'', resp_ctype = ''application/json'',
         resp_body = ''{"results":[{"name":{"first":"Ann","last":"Lee"},"picture":{"medium":"a.jpg"},"login":{"username":"al"},"email":"a@x","location":{"city":"Rome"}}],"info":{"seed":"5f","results":1,"page":1,"version":"1.4"}}''\<rparr>))
      report_unhandled
     \<lparr>ids = [''fullname'', ''avatar'', ''username'', ''email'', ''city'', ''btn''], shown = Map.empty,
      img_src = Map.empty, console = [], reported = []\<rparr> =
   \<lparr>ids = [''fullname'', ''avatar'', ''username'', ''email'', ''city'', ''btn''],
    shown = [''fullname'' \<mapsto> Text ''Ann Lee'', ''username'' \<mapsto> Text ''al'', ''email'' \<mapsto> Text ''a@x'',
             ''city'' \<mapsto> Text ''Rome''],
    img_src = [''avatar'' \<mapsto> ''a.jpg''], console = [], reported = []\<rparr>\<close>
proof -
  let ?p = \<open>\<lparr>ids = [''fullname'', ''avatar'', ''username'', ''email'', ''city'', ''btn''],
            shown = Map.empty, img_src = Map.empty, console = [], reported = []\<rparr>\<close>
  let ?b = \<open>''{"results":[{"name":{"first":"Ann","last":"Lee"},"picture":{"medium":"a.jpg"},"login":{"username":"al"},"email":"a@x","location":{"city":"Rome"}}],"info":{"seed":"5f","results":1,"page":1,"version":"1.4"}}''\<close>
  let ?r = \<open>\<lparr>resp_status = 200, resp_status_text = ''OK'', resp_ctype = ''application/json'',
            resp_body = ?b\<rparr>\<close>
  let ?d = \<open>JObj [(''name'', JObj [(''first'', JStr ''Ann''), (''last'', JStr ''Lee'')]),
                 (''picture'', JObj [(''medium'', JStr ''a.jpg'')]),
                 (''login'', JObj [(''username'', JStr ''al'')]), (''email'', JStr ''a@x''),
                 (''location'', JObj [(''city'', JStr ''Rome'')])]\<close>
  let ?info = \<open>JObj [(''seed'', JStr ''5f''), (''results'', js_int 1), (''page'', js_int 1),
                        (''version'', JStr ''1.4'')]\<close>
  have js: \<open>json_parse ?b = Some (JObj [(''results'', JArr [?d]), (''info'', ?info)])\<close>
    by code_simp
  show ?thesis
    using user_click_success [where net = \<open>\<lambda>_. Reply ?r\<close> and r = ?r and d = ?d and ds = \<open>[]\<close>
        and kvs = \<open>[(''results'', JArr [?d]), (''info'', ?info)]\<close>
        and f = \<open>''Ann''\<close> and l = \<open>''Lee''\<close> and m = \<open>''a.jpg''\<close> and u = \<open>''al''\<close>
        and e = \<open>''a@x''\<close> and c = \<open>''Rome''\<close> and p = ?p and g = \<open>user_globals_of ?p\<close>]
    by (simp add: js response_ok_def)
qed

text \<open>
  C11: a response that is not ok is reported by \<open>displayErrors\<close> as two console
  lines, the second \<open>Error: \<close> followed by the status code, and changes nothing
  else.
\<close>

theorem user_click_http_error:
  assumes "net randomuser_url = Reply r" and "\<not> response_ok r"
  shows "js_settle (user_click g net) report_unhandled p =
           console_log (''Error: '' @ nat_str (resp_status r)) (console_log ''Inside displayErrors'' p)"
  using assms by (simp add: user_defs error_to_string_def)

theorem user_click_http_error_witness:
  "js_settle (user_click (user_globals_of \<lparr>ids = [''btn''], shown = Map.empty, img_src = Map.empty,
        console = [], reported = []\<rparr>)
      (\<lambda>_. Reply \<lparr>resp_status = 404, resp_status_text = ''Not Found'', resp_ctype = ''text/html'',
                  resp_body = []\<rparr>)) report_unhandled
     \<lparr>ids = [''btn''], shown = Map.empty, img_src = Map.empty, console = [], reported = []\<rparr> =
   \<lparr>ids = [''btn''], shown = Map.empty, img_src = Map.empty,
    console = [''Inside displayErrors'', ''Error: 404''], reported = []\<rparr>"
  using user_click_http_error [where net = "\<lambda>_. Reply \<lparr>resp_status = 404, resp_status_text = ''Not Found'',
      resp_ctype = ''text/html'', resp_body = []\<rparr>"
    and r = "\<lparr>resp_status = 404, resp_status_text = ''Not Found'', resp_ctype = ''text/html'', resp_body = []\<rparr>"
    and g = "user_globals_of \<lparr>ids = [''btn''], shown = Map.empty, img_src = Map.empty, console = [], reported = []\<rparr>"
    and p = "\<lparr>ids = [''btn''], shown = Map.empty, img_src = Map.empty, console = [], reported = []\<rparr>"]
  by (simp add: response_ok_def console_log_def nat_str.simps)

text \<open>
  C12: on a page without an element with id \<open>avatar\<close>, an ok response whose body
  is any JSON object with a non-empty \<open>results\<close> array whose first result has a
  name leaves the profile half updated: the full name is shown, then
  the undeclared \<open>avatar\<close> throws a ReferenceError that \<open>displayErrors\<close>
  logs, and the user name, email and city are not written.
\<close>

theorem user_click_missing_avatar:
  assumes "net randomuser_url = Reply r" and "response_ok r"
    and "json_parse (resp_body r) = Some (JObj kvs)" and "map_of kvs ''results'' = Some (JArr (d # ds))"
    and "get_path d [''name'', ''first''] = Inr (JStr f)" and "get_path d [''name'', ''last''] = Inr (JStr l)"
    and "full_name_display g = Some i" and "''avatar'' \<notin> set (ids p)"
  shows "js_settle (user_click g net) report_unhandled p =
           console_log ''ReferenceError: avatar is not defined''
             (console_log ''Inside displayErrors'' (p\<lparr>shown := (shown p)(i \<mapsto> Text (f @ '' '' @ l))\<rparr>))"
  using assms by (simp add: user_defs error_to_string_def js_modify_apply set_inner_text_def)

theorem user_click_missing_avatar_witness:
  \<open>js_settle (user_click (user_globals_of \<lparr>ids = [''fullname'', ''btn''], shown = Map.empty,
        img_src = Map.empty, console = [], reported = []\<rparr>)
      (\<lambda>_. Reply \<lparr>resp_status = 200, resp_status_text = ''OK'', resp_ctype = ''application/json'',
                  resp_body = ''{"results":[{"name":{"first":"Ann","last":"Lee"}}],"info":{"page":1}}''\<rparr>)) report_unhandled
     \<lparr>ids = [''fullname'', ''btn''], shown = Map.empty, img_src = Map.empty, console = [], reported = []\<rparr> =
   \<lparr>ids = [''fullname'', ''btn''], shown = [''fullname'' \<mapsto> Text ''Ann Lee''], img_src = Map.empty,
    console = [''Inside displayErrors'', ''ReferenceError: avatar is not defined''], reported = []\<rparr>\<close>
proof -
  let ?p = \<open>\<lparr>ids = [''fullname'', ''btn''], shown = Map.empty, img_src = Map.empty, console = [],
            reported = []\<rparr>\<close>
  let ?r = \<open>\<lparr>resp_status = 200, resp_status_text = ''OK'', resp_ctype = ''application/json'',
            resp_body = ''{"results":[{"name":{"first":"Ann","last":"Lee"}}],"info":{"page":1}}''\<rparr>\<close>
  let ?d = \<open>JObj [(''name'', JObj [(''first'', JStr ''Ann''), (''last'', JStr ''Lee'')])]\<close>
  have js: \<open>json_parse ''{"results":[{"name":{"first":"Ann","last":"Lee"}}],"info":{"page":1}}'' =
      Some (JObj [(''results'', JArr [?d]), (''info'', JObj [(''page'', js_int 1)])])\<close>
    by code_simp
  show ?thesis
    using user_click_missing_avatar [where net = \<open>\<lambda>_. Reply ?r\<close> and r = ?r and d = ?d and ds = \<open>[]\<close>
        and kvs = \<open>[(''results'', JArr [?d]), (''info'', JObj [(''page'', js_int 1)])]\<close>
        and f = \<open>''Ann''\<close> and l = \<open>''Lee''\<close> and i = \<open>''fullname''\<close> and p = ?p
        and g = \<open>user_globals_of ?p\<close>]
    by (simp add: js response_ok_def user_globals_of_def query_id_def console_log_def)
qed

end
