(* ===== verification/FetchExample.thy ===== *)
theory FetchExample
  imports Fetch
begin

text \<open>
  \<open>src/JS/AJAX/Fetch/fetch-example.js\<close>: when the script loads it fetches
  \<open>example_url\<close> (line 1) and runs the chain of lines 6-12: \<open>res.json()\<close>, then
  \<open>console.log(data.bpi.USD.rate)\<close>, with a catch handler that logs a fixed
  line.  Nothing looks at \<open>res.ok\<close>, so an HTTP error status is handled like a
  success.  The URL's host is \<open>api\<close>, not \<open>api.coindesk.com\<close>.  The comment of
  lines 14-18 says the catch handler runs when \<open>res.json()\<close> fails; it also runs
  for a transport failure and for a parsed value without \<open>bpi.USD\<close>.
\<close>

definition example_url :: url where
  "example_url = ''https://api/coindesk.com/v1/bpi/currentprice.json''"

definition example_run :: "network \<Rightarrow> (page, unit) js" where
  "example_run net =
     js_catch
       (js_bind (js_bind (fetch net example_url) (\<lambda>res. response_json res))
          (\<lambda>data. js_bind (js_of_sum (get_path data [''bpi'', ''USD'', ''rate'']))
                    (\<lambda>rate. js_modify (console_log (console_show rate)))))
       (\<lambda>_. js_modify (console_log ''There was a problem!''))"

text \<open>The host part of an \<open>https:\<close> URL: what follows the scheme up to the first
  slash.\<close>

definition https_host :: "url \<Rightarrow> string" where
  "https_host u = takeWhile (\<lambda>c. c \<noteq> CHR ''/'') (drop (length ''https://'') u)"

lemma example_url_host: "https_host example_url = ''api''"
  by (simp add: https_host_def example_url_def)

subsection \<open>Properties\<close>

text \<open>
  C13: the script logs exactly one console line, whatever the network does: the
  rate's display when the body parses and has \<open>bpi.USD\<close>, and "There was a
  problem!" for a transport failure, a body that is not JSON, and a value without
  \<open>bpi.USD\<close>.  Nothing else changes and nothing is reported.
\<close>

theorem example_run_effect:
  "js_settle (example_run net) report_unhandled p =
     console_log
       (case net example_url of
          NetFail \<Rightarrow> ''There was a problem!''
        | Reply r \<Rightarrow>
            (case json_parse (resp_body r) of
               None \<Rightarrow> ''There was a problem!''
             | Some v \<Rightarrow>
                 (case get_path v [''bpi'', ''USD'', ''rate''] of
                    Inl e \<Rightarrow> ''There was a problem!''
                  | Inr rate \<Rightarrow> console_show rate)))
       p"
  by (simp add: example_run_def response_json_def JSON_parse_def
      split: net_result.splits option.splits sum.splits)

end
