(* ===== verification/Spec2Isabelle.thy ===== *)
theory Spec2Isabelle
  imports Prelude JsValue Promise Json JsonRoundtrip Dom Fetch Axios Xhr JQuery Adapter
    RonSwanson RandomDog PriceChecker RandomUser FetchExample
begin

text \<open>
  Verification development of the AJAX demos of the Advanced Web Dev Bootcamp
  (\<open>src/JS/AJAX\<close>): five browser scripts that each fire one HTTP GET request on a
  click (or on load) and render a field of the JSON reply, each through another
  transport: XMLHttpRequest, jQuery's \<open>$.get\<close>, axios and \<open>fetch\<close>.

  \<^bold>\<open>The platform.\<close>  The scripts only call into the browser and two libraries, so
  the semantics of what they call is modelled once and shared (not code of the
  repository, hence not in the map):
  \<^item> Prelude: the collection \<open>js_eval\<close> of evaluation rules, \<open>sum_bind\<close> for
    throwing reads, decimal digit strings \<open>nat_str\<close>/\<open>read_nat\<close>.
  \<^item> JsValue: JavaScript values \<open>jsval\<close>, errors \<open>js_error\<close>, ToString
    (\<open>js_to_string\<close>), ToBoolean, property reads that throw on
    \<open>undefined\<close>/\<open>null\<close> (\<open>get_prop\<close>, \<open>get_index\<close>, \<open>get_path\<close>), and
    function hoisting (\<open>hoist\<close>: the last declaration of a name wins).
  \<^item> Promise: a state-passing completion type (\<open>Normal\<close>/\<open>Throw\<close>) with
    \<open>.then\<close> (\<open>js_bind\<close>), \<open>.catch\<close> (\<open>js_catch\<close>) and the browser's report
    of what nobody caught (\<open>js_settle\<close>); its laws.
  \<^item> Json, JsonRoundtrip: \<open>JSON.parse\<close> as a recursive-descent parser with fuel,
    the compact printer, and the round trip \<open>json_parse (json_print v) = Some v\<close>
    for every JSON value.  The fuel is one unit per input character plus one; a
    printed value needs its weight (two per array or object, one per scalar),
    which is at most its length, so the fuel is enough for every printed text.
  \<^item> Dom: the page (\<open>page\<close>: element ids, what each shows, image sources,
    console, reported errors), \<open>querySelector\<close>, the property setters that throw
    on \<open>null\<close> (with the \<open>[LegacyNullToEmptyString]\<close> conversion of
    \<open>innerHTML\<close>/\<open>innerText\<close>, \<open>legacy_null_to_empty\<close>),
    \<open>addEventListener\<close>, named access on the window.
  \<^item> Fetch: the network (\<open>url \<Rightarrow> net_result\<close>: a transport failure or a reply),
    \<open>fetch\<close>, \<open>response.ok\<close>, \<open>response.json()\<close>.
  \<^item> Axios, JQuery: the two libraries with their default configuration (axios's
    silent JSON parsing and \<open>validateStatus\<close>; jQuery's success statuses,
    content-type driven conversion, done/fail callbacks, getters on
    \<open>undefined\<close>).
  \<^item> Xhr: the XMLHttpRequest object as a readyState machine (\<open>xhr_step\<close>), the run
    of a request's events with the handler called after each firing step
    (\<open>xhr_run\<close>), the step relation with its reachable states and invariant,
    and the session lemma: a handler guarded by readyState 4 runs once, on the
    final object, however the body is chunked.
  \<^item> Adapter: the specification's request contract \<open>issue\<close> (spec 4.1), the
    abstract outcome the demos are compared with.

  \<^bold>\<open>The scripts.\<close>  One theory per file of \<open>src\<close>; each has the script's element
  lookups as a record (\<open>*_globals\<close>, \<open>*_globals_of\<close>), its listener
  registration, its functions one definition each, and its click handler composed
  the way the code chains them:
  \<^item> RonSwanson (\<open>Axios/ron-swanson.js\<close>): the four buttons, registered by
    \<open>register_xhr\<close>, \<open>register_jquery\<close>, \<open>register_axios\<close> and
    \<open>register_fetch\<close> (lines 8, 22, 33, 58) in that order (\<open>ron_register\<close>).
    \<open>ron_xhr_handler\<close>,
    \<open>ron_xhr_click\<close> (XHR, lines 8-19); \<open>ron_jq_click\<close> (jQuery, lines 22-30);
    \<open>send_request\<close>, \<open>add_quote\<close> (axios, lines 33-43); \<open>ron_fetch_click\<close>,
    \<open>parse_json\<close>, \<open>update_quote\<close>, \<open>display_errors\<close> (fetch, lines 58-86).  The
    two declarations of \<open>handleErrors\<close> (lines 45 and 67) are
    \<open>handle_errors_axios\<close> and \<open>handle_errors_fetch\<close>, and every use goes through
    the hoisted binding (\<open>call_handle_errors (hoist ron_decls ''handleErrors'')\<close>).
  \<^item> PriceChecker (\<open>XHR/Bitcoin-Price-Checker/price-checker.js\<close>):
    \<open>price_handler\<close>, \<open>price_click\<close>.
  \<^item> RandomDog (\<open>jQuery/RandomDogGenerator/random-dog.js\<close>): \<open>dog_click\<close>.
  \<^item> RandomUser (\<open>Fetch/RandomUser/random-user.js\<close>): \<open>user_handle_errors\<close>,
    \<open>user_parse_json\<close>, \<open>update_profile\<close> (field by field, with the undeclared
    \<open>avatar\<close> resolved by named access), \<open>user_display_errors\<close>,
    \<open>user_click\<close>.
  \<^item> FetchExample (\<open>Fetch/fetch-example.js\<close>): \<open>example_run\<close>.

  \<^bold>\<open>What is proved.\<close>  For every handler, its effect on the page for every network
  (C1, C2, C4, C5, C6, C13), or on the branches that matter, with witnesses at the
  specification's own test inputs (C3, C7-C12); the XHR claims hold however the
  network splits the body into chunks.  Across the transports, the four Ron Swanson
  buttons agree on any JSON list of quotes (C14, through the JSON round trip); the
  Ron Swanson fetch button and the random user button refine the specification's
  request contract, their effect depending on the network only through \<open>issue\<close>
  (C15, C16).  At load time, the Ron Swanson script registers its listeners in
  source order and a missing button aborts the later ones (C17), and the other
  three scripts register theirs or throw on a missing element (C18).

  \<^bold>\<open>Findings.\<close>  The second \<open>handleErrors\<close> captures the axios chain's errors; axios shows the first character of a non-JSON body; the XHR
  handlers drop every failure silently and treat a 2xx other than 200 as one; the
  jQuery fail callback logs "[object Object]"; the random user page writes through
  the undeclared \<open>avatar\<close>; the fetch example never checks \<open>res.ok\<close> and
  requests a URL whose host is \<open>api\<close>.

  \<^bold>\<open>Not modelled.\<close>  The pages' HTML is not in the repository: the elements present
  are a parameter of every theorem.  Each theorem is about one click and its
  request: the event loop, and several requests in flight at once, are not
  modelled.  The console's display of objects is approximated by their JSON text; number printing
  in exponent notation and NaN are outside the values the APIs return; XML and
  script content types in jQuery are not modelled.
\<close>

subsection \<open>Lemmas across the demos\<close>

lemma json_data_quotes: "json_data_list (map JStr qs)"
  by (induction qs) simp_all

lemma ron_fetch_click_issue:
  "js_settle (ron_fetch_click g net) report_unhandled p =
     (case issue (net quotes_url) of
        Failure NetworkError d \<Rightarrow> console_log ''Error: TypeError: Failed to fetch'' p
      | Failure HttpError d \<Rightarrow> console_log ''Error: Error: There was an error with the fetch'' p
      | Failure ParseError d \<Rightarrow> console_log ''Error: SyntaxError: Unexpected token in JSON'' p
      | Success st v \<Rightarrow>
          (case quote_text g of
             Some q \<Rightarrow> p\<lparr>shown := (shown p)(q \<mapsto> Text (legacy_null_to_empty v))\<rparr>
           | None \<Rightarrow> console_log (''Error: '' @ error_to_string (set_error ''innerText'')) p))"
proof (cases "net quotes_url")
  case NetFail
  then show ?thesis by (simp add: ron_fetch_defs)
next
  case (Reply r)
  then show ?thesis
    by (cases "response_ok r")
      (simp_all add: ron_fetch_defs issue_Reply_ok issue_Reply_not_ok split: option.splits)
qed

lemma user_click_issue:
  "js_settle (user_click g net) report_unhandled p =
     (case issue (net randomuser_url) of
        Failure NetworkError d \<Rightarrow> console_log ''TypeError: Failed to fetch'' (console_log ''Inside displayErrors'' p)
      | Failure HttpError d \<Rightarrow> console_log (''Error: '' @ d) (console_log ''Inside displayErrors'' p)
      | Failure ParseError d \<Rightarrow>
          console_log ''SyntaxError: Unexpected token in JSON'' (console_log ''Inside displayErrors'' p)
      | Success st v \<Rightarrow>
          js_settle (js_catch (js_bind (js_of_sum (sum_bind (get_prop v ''results'') (\<lambda>rs. get_index rs 0)))
            (update_profile g)) user_display_errors) report_unhandled p)"
proof (cases "net randomuser_url")
  case NetFail
  then show ?thesis by (simp add: user_defs error_to_string_def fetch_failed_def)
next
  case (Reply r)
  then show ?thesis
    by (cases "response_ok r")
      (simp_all add: user_defs issue_Reply_ok issue_Reply_not_ok error_to_string_def
        json_syntax_error_def response_json_def JSON_parse_def split: option.splits)
qed

subsection \<open>Properties across the transports\<close>

text \<open>
  C14: the four Ron Swanson buttons agree on the case the specification's tests
  describe.  For a 200 reply with a JSON content type whose body is any non-empty
  list of quotes, printed as JSON (so the JSON round trip applies), and however the
  body is chunked: the XHR and axios buttons write the first quote as markup, the
  jQuery button as text, and the fetch button shows the whole list as text, the
  quotes joined by commas.
\<close>

theorem quote_list_all_buttons:
  assumes "net quotes_url = Reply r" and "resp_status r = 200" and "json_word True (resp_ctype r)"
    and "resp_body r = json_print (JArr (map JStr (q # qs)))"
    and "chunking (net quotes_url) chunks"
    and "quote_text g = Some ''quote''" and "''quote'' \<in> set (ids p)"
  shows "ron_xhr_click g net chunks p = Some (p\<lparr>shown := (shown p)(''quote'' \<mapsto> Html q)\<rparr>) \<and>
         js_settle (send_request g net) report_unhandled p = p\<lparr>shown := (shown p)(''quote'' \<mapsto> Html q)\<rparr> \<and>
         ron_jq_click net p = p\<lparr>shown := (shown p)(''quote'' \<mapsto> Text q)\<rparr> \<and>
         js_settle (ron_fetch_click g net) report_unhandled p =
           p\<lparr>shown := (shown p)(''quote'' \<mapsto> Text (js_to_string (JArr (map JStr (q # qs)))))\<rparr>"
proof -
  have js: "json_parse (resp_body r) = Some (JArr (map JStr (q # qs)))"
    using assms(4) json_parse_print [of "JArr (map JStr (q # qs))"] json_data_quotes [of "q # qs"]
    by simp
  have xhr: "ron_xhr_click g net chunks p = Some (p\<lparr>shown := (shown p)(''quote'' \<mapsto> Html q)\<rparr>)"
    using assms(1,2,5,6) js
    by (simp add: ron_xhr_click_session ron_xhr_handler_def xhr_response_def JSON_parse_def
        set_inner_html_def)
  have ax: "js_settle (send_request g net) report_unhandled p = p\<lparr>shown := (shown p)(''quote'' \<mapsto> Html q)\<rparr>"
    using assms(1,2,4,6) js by (simp add: ron_axios_defs axios_valid_status_def axios_data_def)
  have jq: "ron_jq_click net p = p\<lparr>shown := (shown p)(''quote'' \<mapsto> Text q)\<rparr>"
    using assms(1,2,3,7) js
    by (simp add: ron_jq_click_def jq_get_def jq_success_status_def jq_convert_def jq_text_val_def jq_text_def)
  have fe: "js_settle (ron_fetch_click g net) report_unhandled p =
           p\<lparr>shown := (shown p)(''quote'' \<mapsto> Text (js_to_string (JArr (map JStr (q # qs)))))\<rparr>"
    using assms(1,2,6) js by (simp add: ron_fetch_defs response_ok_def)
  show ?thesis using xhr ax jq fe by blast
qed

theorem quote_list_all_buttons_witness:
  \<open>ron_xhr_click (ron_globals_of \<lparr>ids = [''quote''], shown = Map.empty, img_src = Map.empty, console = [], reported = []\<rparr>)
     (\<lambda>_. Reply \<lparr>resp_status = 200, resp_status_text = ''OK'', resp_ctype = ''application/json; charset=utf-8'',
        resp_body = ''["Fried chicken is the best thing that man has ever done for the world."]''\<rparr>)
     [''["Fried chicken is the best thing that man has ever done for the world."]'']
     \<lparr>ids = [''quote''], shown = Map.empty, img_src = Map.empty, console = [], reported = []\<rparr> =
   Some \<lparr>ids = [''quote''],
     shown = [''quote'' \<mapsto> Html ''Fried chicken is the best thing that man has ever done for the world.''],
     img_src = Map.empty, console = [], reported = []\<rparr> \<and>
   ron_jq_click
     (\<lambda>_. Reply \<lparr>resp_status = 200, resp_status_text = ''OK'', resp_ctype = ''application/json; charset=utf-8'',
        resp_body = ''["Fried chicken is the best thing that man has ever done for the world."]''\<rparr>)
     \<lparr>ids = [''quote''], shown = Map.empty, img_src = Map.empty, console = [], reported = []\<rparr> =
   \<lparr>ids = [''quote''],
     shown = [''quote'' \<mapsto> Text ''Fried chicken is the best thing that man has ever done for the world.''],
     img_src = Map.empty, console = [], reported = []\<rparr>\<close>
proof -
  let ?q = \<open>''Fried chicken is the best thing that man has ever done for the world.''\<close>
  let ?p = \<open>\<lparr>ids = [''quote''], shown = Map.empty, img_src = Map.empty, console = [], reported = []\<rparr>\<close>
  let ?r = \<open>\<lparr>resp_status = 200, resp_status_text = ''OK'', resp_ctype = ''application/json; charset=utf-8'',
        resp_body = ''["Fried chicken is the best thing that man has ever done for the world."]''\<rparr>\<close>
  have body: \<open>''["Fried chicken is the best thing that man has ever done for the world."]'' =
      json_print (JArr (map JStr [?q]))\<close>
    by (simp add: json_quote_def esc_char_def)
  show ?thesis
    using quote_list_all_buttons [where net = \<open>\<lambda>_. Reply ?r\<close> and r = ?r and q = ?q and qs = \<open>[]\<close>
        and chunks = \<open>[''["Fried chicken is the best thing that man has ever done for the world."]'']\<close>
        and g = \<open>ron_globals_of ?p\<close> and p = ?p]
    by (simp add: body chunking_def ron_globals_of_def word_char_def is_digit_def)
qed

text \<open>
  C15: the Ron Swanson fetch button refines the specification's request contract:
  two networks whose replies \<open>issue\<close> classifies alike (the same
  NetworkError, HttpError with the same status, ParseError, or Success with the
  same status and body) give the same page after a click.
\<close>

theorem ron_fetch_refines_issue:
  assumes "issue (net1 quotes_url) = issue (net2 quotes_url)"
  shows "js_settle (ron_fetch_click g net1) report_unhandled p =
         js_settle (ron_fetch_click g net2) report_unhandled p"
  using assms by (simp only: ron_fetch_click_issue)

theorem ron_fetch_refines_issue_witness:
  "js_settle (ron_fetch_click (ron_globals_of \<lparr>ids = [''quote''], shown = Map.empty, img_src = Map.empty, console = [], reported = []\<rparr>)
      (\<lambda>_. Reply \<lparr>resp_status = 404, resp_status_text = ''Not Found'', resp_ctype = ''text/html'', resp_body = ''x''\<rparr>))
      report_unhandled \<lparr>ids = [''quote''], shown = Map.empty, img_src = Map.empty, console = [], reported = []\<rparr> =
   js_settle (ron_fetch_click (ron_globals_of \<lparr>ids = [''quote''], shown = Map.empty, img_src = Map.empty, console = [], reported = []\<rparr>)
      (\<lambda>_. Reply \<lparr>resp_status = 404, resp_status_text = ''Gone away'', resp_ctype = ''text/plain'', resp_body = ''y''\<rparr>))
      report_unhandled \<lparr>ids = [''quote''], shown = Map.empty, img_src = Map.empty, console = [], reported = []\<rparr>"
  by (rule ron_fetch_refines_issue) (simp add: issue_def)

text \<open>
  C16: the random user button refines the request contract in the same way; its
  \<open>displayErrors\<close> line for an HttpError is the contract's detail, the status.
\<close>

theorem user_click_refines_issue:
  assumes "issue (net1 randomuser_url) = issue (net2 randomuser_url)"
  shows "js_settle (user_click g net1) report_unhandled p = js_settle (user_click g net2) report_unhandled p"
  using assms by (simp only: user_click_issue)

theorem user_click_refines_issue_witness:
  "js_settle (user_click (user_globals_of \<lparr>ids = [''btn''], shown = Map.empty, img_src = Map.empty, console = [], reported = []\<rparr>)
      (\<lambda>_. Reply \<lparr>resp_status = 500, resp_status_text = ''Internal Server Error'', resp_ctype = ''text/html'', resp_body = ''oops''\<rparr>))
      report_unhandled \<lparr>ids = [''btn''], shown = Map.empty, img_src = Map.empty, console = [], reported = []\<rparr> =
   js_settle (user_click (user_globals_of \<lparr>ids = [''btn''], shown = Map.empty, img_src = Map.empty, console = [], reported = []\<rparr>)
      (\<lambda>_. Reply \<lparr>resp_status = 500, resp_status_text = ''Error'', resp_ctype = ''application/json'', resp_body = ''{}''\<rparr>))
      report_unhandled \<lparr>ids = [''btn''], shown = Map.empty, img_src = Map.empty, console = [], reported = []\<rparr>"
  by (rule user_click_refines_issue) (simp add: issue_def)

subsection \<open>Listener registration of the other scripts\<close>

text \<open>
  C18: what the other three scripts register when they load.  The random dog
  script registers through jQuery's \<open>.click\<close>, which never throws: the page
  gets a click listener when it has \<open>#btn\<close> and none otherwise.  The price
  checker and the random user scripts call \<open>addEventListener\<close> on the element
  they looked up: the first button of the page and \<open>#btn\<close>.  With the element
  present one listener is registered; without it the call on \<open>null\<close> throws a
  TypeError and nothing is registered.
\<close>

theorem scripts_register_listeners:
  "dog_register p [] = (Normal (), if ''btn'' \<in> set (ids p) then [DogClick] else []) \<and>
   price_register (price_globals_of p buttons) [] =
     (case buttons of
        [] \<Rightarrow> (Throw (read_error ''null'' ''addEventListener''), [])
      | b # bs \<Rightarrow> (Normal (), [PriceClick])) \<and>
   user_register (user_globals_of p) [] =
     (if ''btn'' \<in> set (ids p) then (Normal (), [UserClick])
      else (Throw (read_error ''null'' ''addEventListener''), []))"
  by (simp add: dog_register_def jq_click_def price_register_def price_globals_of_def
      user_register_def user_globals_of_def query_id_def add_listener_def js_modify_def js_throw_def
      split: list.splits)

end
